theory Spec2Isabelle
  imports Complex_Main "HOL-Library.Word"
begin

section \<open>Machine types\<close>

text \<open>
  \<^verbatim>\<open>std::size_t\<close> and \<^verbatim>\<open>unsigned long\<close> are 64-bit unsigned integers (LP64): addition and
  multiplication wrap around modulo \<open>2 ^ 64\<close>.
\<close>

type_synonym size_t = "64 word"

section \<open>Values handed over by the JavaScript engine\<close>

text \<open>
  A JavaScript number is an IEEE double.  A finite double is represented by the real number
  it denotes (\<open>Fin 0\<close> is \<open>+0\<close>); the three special values and the negative zero are
  constructors of their own.  Comparing two doubles never rounds, so \<open>>=\<close> on doubles is
  \<open>\<ge>\<close> on the reals they denote, and false as soon as one side is \<open>NaN\<close>.
\<close>

datatype jsnum = NaN | NegInf | PosInf | NegZero | Fin real

fun cmp_key :: "jsnum \<Rightarrow> (int \<times> real) option" where
  "cmp_key NaN = None"
| "cmp_key NegInf = Some (- 1, 0)"
| "cmp_key PosInf = Some (1, 0)"
| "cmp_key NegZero = Some (0, 0)"
| "cmp_key (Fin r) = Some (0, r)"

definition num_ge :: "jsnum \<Rightarrow> jsnum \<Rightarrow> bool" where
  "num_ge a b =
     (case cmp_key a of
        None \<Rightarrow> False
      | Some (i, x) \<Rightarrow>
          (case cmp_key b of
             None \<Rightarrow> False
           | Some (j, y) \<Rightarrow> j < i \<or> (i = j \<and> y \<le> x)))"

text \<open>
  One entry of the \<^verbatim>\<open>dimensions\<close> array of a schema descriptor, after the conversions the
  factory applies to it: \<^verbatim>\<open>ToObject()\<close>, then \<^verbatim>\<open>Get("name" | "type" | "size")->ToString()\<close>.
\<close>

record DimDescr =
  name_str :: string
  type_str :: string
  size_str :: string

text \<open>
  The values an argument can be.  A plain object carries what the factory reads from it:
  whether it has a \<^verbatim>\<open>dimensions\<close> property and, if so, the entries of that array.
  An array is the list of its elements (a hole reads as \<open>JUndefined\<close>); a function is named
  by a number.
\<close>

datatype jsval =
    JUndefined
  | JNull
  | JBoolean bool
  | JNumber jsnum
  | JString string
  | JArray "jsval list"
  | JObject "DimDescr list option"
  | JFunction nat

fun IsUndefined :: "jsval \<Rightarrow> bool" where
  "IsUndefined JUndefined = True"
| "IsUndefined _ = False"

fun IsFunction :: "jsval \<Rightarrow> bool" where
  "IsFunction (JFunction f) = True"
| "IsFunction _ = False"

fun IsString :: "jsval \<Rightarrow> bool" where
  "IsString (JString s) = True"
| "IsString _ = False"

fun IsNumber :: "jsval \<Rightarrow> bool" where
  "IsNumber (JNumber n) = True"
| "IsNumber _ = False"

fun IsBoolean :: "jsval \<Rightarrow> bool" where
  "IsBoolean (JBoolean b) = True"
| "IsBoolean _ = False"

fun IsArray :: "jsval \<Rightarrow> bool" where
  "IsArray (JArray xs) = True"
| "IsArray _ = False"

text \<open>Arrays and functions are objects too; \<^verbatim>\<open>null\<close> is not.\<close>

fun IsObject :: "jsval \<Rightarrow> bool" where
  "IsObject (JObject d) = True"
| "IsObject (JArray xs) = True"
| "IsObject (JFunction f) = True"
| "IsObject _ = False"

text \<open>
  \<^verbatim>\<open>IsInt32\<close> and \<^verbatim>\<open>IsUint32\<close> hold of a number whose value is an integer of the range; the
  negative zero is neither.
\<close>

fun IsInt32 :: "jsval \<Rightarrow> bool" where
  "IsInt32 (JNumber (Fin r)) = (r = of_int \<lfloor>r\<rfloor> \<and> - (2 ^ 31) \<le> r \<and> r < 2 ^ 31)"
| "IsInt32 _ = False"

fun IsUint32 :: "jsval \<Rightarrow> bool" where
  "IsUint32 (JNumber (Fin r)) = (r = of_int \<lfloor>r\<rfloor> \<and> 0 \<le> r \<and> r < 2 ^ 32)"
| "IsUint32 _ = False"

text \<open>
  \<^verbatim>\<open>Uint32Value\<close> of a number: \<open>NaN\<close>, the infinities and the zeros give 0, any other
  number is truncated towards zero and reduced modulo \<open>2 ^ 32\<close>.  The program calls it only
  on values that passed \<^verbatim>\<open>IsNumber\<close> or \<^verbatim>\<open>isInteger\<close>; the conversion of other values to a
  number is not part of the model (they read as 0).  The result is then widened to
  \<^verbatim>\<open>std::size_t\<close>.
\<close>

fun Uint32Value :: "jsval \<Rightarrow> size_t" where
  "Uint32Value (JNumber (Fin r)) =
     word_of_int ((if 0 \<le> r then \<lfloor>r\<rfloor> else \<lceil>r\<rceil>) mod 2 ^ 32)"
| "Uint32Value _ = 0"

text \<open>\<^verbatim>\<open>NumberValue\<close>, \<^verbatim>\<open>BooleanValue\<close> and \<^verbatim>\<open>Utf8Value\<close>, each called after its type test only.\<close>

fun NumberValue :: "jsval \<Rightarrow> jsnum" where
  "NumberValue (JNumber n) = n"
| "NumberValue _ = NaN"

fun BooleanValue :: "jsval \<Rightarrow> bool" where
  "BooleanValue (JBoolean b) = b"
| "BooleanValue _ = False"

fun Utf8Value :: "jsval \<Rightarrow> string" where
  "Utf8Value (JString s) = s"
| "Utf8Value _ = []"

text \<open>\<^verbatim>\<open>bbox->Get(i)\<close>: an index past the end of the array reads as undefined.\<close>

fun Get :: "jsval \<Rightarrow> nat \<Rightarrow> jsval" where
  "Get (JArray xs) i = (if i < length xs then xs ! i else JUndefined)"
| "Get _ i = JUndefined"

fun Length :: "jsval \<Rightarrow> nat" where
  "Length (JArray xs) = length xs"
| "Length _ = 0"

text \<open>\<^verbatim>\<open>schemaObj->Has("dimensions")\<close> and the array read from that property.\<close>

fun dimensions :: "jsval \<Rightarrow> DimDescr list option" where
  "dimensions (JObject d) = d"
| "dimensions _ = None"

section \<open>The helpers of read-command.cpp\<close>

definition isInteger :: "jsval \<Rightarrow> bool" where
  "isInteger v = (IsInt32 v \<or> IsUint32 v)"

definition isDefined :: "jsval \<Rightarrow> bool" where
  "isDefined v = (\<not> IsUndefined v)"

record DimensionRequest =
  dim_name :: string
  dim_type :: string
  dim_size :: size_t

type_synonym Schema = "DimensionRequest list"

text \<open>The loop of \<^verbatim>\<open>getStride\<close>: \<^verbatim>\<open>stride += dim.size\<close> over the schema, from 0.\<close>

definition getStride :: "Schema \<Rightarrow> size_t" where
  "getStride schema = foldl (\<lambda>stride dim. stride + dim_size dim) 0 schema"

section \<open>strtoul\<close>

text \<open>
  \<^verbatim>\<open>strtoul(s, 0, 0)\<close> of the C library: white space is skipped, then an optional sign, then
  the base is read off the prefix (\<^verbatim>\<open>0x\<close> or \<^verbatim>\<open>0X\<close> before a hexadecimal digit: 16; a
  leading \<^verbatim>\<open>0\<close>: 8; otherwise 10), then the longest run of digits of that base is
  converted.  No digit at all gives 0; a value beyond \<^verbatim>\<open>ULONG_MAX\<close> gives \<^verbatim>\<open>ULONG_MAX\<close>; a
  minus sign negates the value modulo \<open>2 ^ 64\<close>.
\<close>

definition isspace :: "char \<Rightarrow> bool" where
  "isspace c = (c \<in> set [CHR '' '', CHR 0x09, CHR 0x0A, CHR 0x0B, CHR 0x0C, CHR 0x0D])"

definition digit_val :: "char \<Rightarrow> nat" where
  "digit_val c =
     (let n = (of_char c :: nat) in
      if 48 \<le> n \<and> n \<le> 57 then n - 48
      else if 97 \<le> n \<and> n \<le> 122 then n - 87
      else if 65 \<le> n \<and> n \<le> 90 then n - 55
      else 36)"

fun digits :: "nat \<Rightarrow> string \<Rightarrow> nat list" where
  "digits b [] = []"
| "digits b (c # cs) = (if digit_val c < b then digit_val c # digits b cs else [])"

fun strip_sign :: "string \<Rightarrow> bool \<times> string" where
  "strip_sign [] = (False, [])"
| "strip_sign (c # cs) =
     (if c = CHR ''-'' then (True, cs)
      else if c = CHR ''+'' then (False, cs)
      else (False, c # cs))"

fun strip_base :: "string \<Rightarrow> nat \<times> string" where
  "strip_base (z # x # h # cs) =
     (if z = CHR ''0'' \<and> (x = CHR ''x'' \<or> x = CHR ''X'') \<and> digit_val h < 16 then (16, h # cs)
      else if z = CHR ''0'' then (8, z # x # h # cs)
      else (10, z # x # h # cs))"
| "strip_base (z # cs) = (if z = CHR ''0'' then (8, z # cs) else (10, z # cs))"
| "strip_base [] = (10, [])"

definition strtoul :: "string \<Rightarrow> size_t" where
  "strtoul s =
     (case strip_sign (dropWhile isspace s) of
        (neg, s1) \<Rightarrow>
          (case strip_base s1 of
             (b, s2) \<Rightarrow>
               (let v = foldl (\<lambda>a d. a * b + d) 0 (digits b s2) in
                if 2 ^ 64 \<le> v then - 1
                else if neg then - word_of_nat v
                else word_of_nat v)))"

section \<open>The session and the commands\<close>

text \<open>What a call that can throw gives back: its value, a \<^verbatim>\<open>std::runtime_error\<close> with its
  message, or any other exception (\<^verbatim>\<open>std::bad_alloc\<close> among them).\<close>

datatype 'a outcome = Returns 'a | ThrowsRuntimeError string | ThrowsOther

text \<open>
  A buffer pointer is \<open>None\<close> when null and \<open>Some n\<close> when it points to an array of \<open>n\<close>
  bytes.  Every \<^verbatim>\<open>read\<close> of the session receives the address of the caller's buffer pointer:
  it is given the pointer's value and gives back the value it leaves there, together with
  the number of points read or the exception it throws.  The session is an external collaborator; its operations are the fields
  of this record.  \<open>nativeDims\<close> is the list of \<^verbatim>\<open>DimensionRequest(id, dimType(id))\<close> over the
  dimensions of the session's point context, in their order.
\<close>

type_synonym buffer = "size_t option"

type_synonym read_result = "buffer \<times> size_t outcome"

record PdalSession =
  getNumPoints :: size_t
  sessionStride :: size_t
  nativeDims :: Schema
  readLegacy :: "buffer \<Rightarrow> size_t \<Rightarrow> size_t \<Rightarrow> read_result"
  readUnindexed :: "buffer \<Rightarrow> Schema \<Rightarrow> size_t \<Rightarrow> size_t \<Rightarrow> read_result"
  readBBox :: "buffer \<Rightarrow> Schema \<Rightarrow> jsnum \<Rightarrow> jsnum \<Rightarrow> jsnum \<Rightarrow> jsnum \<Rightarrow> size_t \<Rightarrow> size_t
    \<Rightarrow> read_result"
  readDepth :: "buffer \<Rightarrow> Schema \<Rightarrow> size_t \<Rightarrow> size_t \<Rightarrow> read_result"
  readRadius :: "buffer \<Rightarrow> Schema \<Rightarrow> bool \<Rightarrow> jsnum \<Rightarrow> jsnum \<Rightarrow> jsnum \<Rightarrow> jsnum \<Rightarrow> read_result"

text \<open>
  The three subclasses of \<^verbatim>\<open>ReadCommand\<close> with the members each adds.  A
  \<^verbatim>\<open>ReadCommandQuadIndex\<close> built without a bounding box has \<^verbatim>\<open>m_isBBoxQuery\<close> false and
  carries no coordinates: its bounding box is \<open>None\<close>.
\<close>

datatype query =
    ReadCommandUnindexed (m_start: size_t) (m_count: size_t)
  | ReadCommandQuadIndex (m_bbox: "(jsnum \<times> jsnum \<times> jsnum \<times> jsnum) option")
      (m_depthBegin: size_t) (m_depthEnd: size_t)
  | ReadCommandPointRadius (m_is3d: bool) (m_radius: jsnum) (m_x: jsnum) (m_y: jsnum) (m_z: jsnum)

text \<open>
  \<^verbatim>\<open>m_bufferTransmitter\<close> is \<open>None\<close> while the pointer is empty, and otherwise holds what the
  transmitter was constructed with: host, port, buffer and byte count.
\<close>

record ReadCommand =
  m_pdalSession :: PdalSession
  m_host :: string
  m_port :: size_t
  m_schema :: Schema
  m_stride :: size_t
  m_callback :: jsval
  m_cancel :: bool
  m_data :: buffer
  m_bufferTransmitter :: "(string \<times> size_t \<times> buffer \<times> size_t) option"
  m_errMsg :: string
  m_numPoints :: size_t
  m_numBytes :: size_t
  m_query :: query

definition schemaOrDefault :: "PdalSession \<Rightarrow> Schema \<Rightarrow> Schema" where
  "schemaOrDefault pdalSession reqSchema =
     (if 0 < length reqSchema then reqSchema else nativeDims pdalSession)"

text \<open>
  The memory the program allocates arrays from: \<open>mem n\<close> tells whether
  \<^verbatim>\<open>new unsigned char[n]\<close> returns; otherwise it throws \<^verbatim>\<open>std::bad_alloc\<close>.
\<close>

type_synonym memory = "size_t \<Rightarrow> bool"

text \<open>
  The constructor of \<^verbatim>\<open>ReadCommand\<close>, with the members of the subclass as \<open>q\<close>.  The
  initialisers leave \<open>m_data\<close> null; the body then allocates
  \<^verbatim>\<open>new unsigned char[m_stride * m_pdalSession->getNumPoints()]\<close>.  When the allocation throws,
  the constructor throws and there is no command.
\<close>

definition newReadCommand ::
  "memory \<Rightarrow> PdalSession \<Rightarrow> string \<Rightarrow> size_t \<Rightarrow> Schema \<Rightarrow> jsval \<Rightarrow> query
    \<Rightarrow> ReadCommand outcome" where
  "newReadCommand mem pdalSession host port schema callback q =
     (let sch = schemaOrDefault pdalSession schema;
          stride = getStride sch;
          c = \<lparr> m_pdalSession = pdalSession,
                m_host = host,
                m_port = port,
                m_schema = sch,
                m_stride = stride,
                m_callback = callback,
                m_cancel = False,
                m_data = None,
                m_bufferTransmitter = None,
                m_errMsg = [],
                m_numPoints = 0,
                m_numBytes = 0,
                m_query = q \<rparr>
      in
      if mem (m_stride c * getNumPoints (m_pdalSession c))
      then Returns (c\<lparr> m_data := Some (m_stride c * getNumPoints (m_pdalSession c)) \<rparr>)
      else ThrowsOther)"

definition setNumPoints :: "size_t \<Rightarrow> ReadCommand \<Rightarrow> ReadCommand" where
  "setNumPoints numPoints c = c\<lparr> m_numPoints := numPoints, m_numBytes := numPoints * m_stride c \<rparr>"

section \<open>What the program does to the outside\<close>

text \<open>
  The observable actions, in the order they happen: a call of a JavaScript function with its
  arguments, the disposal of a persistent handle, the queueing of the two tasks of a read,
  one \<^verbatim>\<open>BufferTransmitter::transmit(offset, numBytes)\<close>, a line on the standard output, and
  the \<^verbatim>\<open>delete\<close>s of \<^verbatim>\<open>PdalBindings::read\<close>: of the buffer, of the \<^verbatim>\<open>ReadData\<close> and of the
  two request tokens.
\<close>

datatype cout_line =
    Cancelling
  | CancelledAt size_t size_t
  | CaughtErrorTransmittingBuffer

datatype event =
    Call jsval "jsval list"
  | Dispose jsval
  | QueueRead
  | QueueSend
  | Transmit size_t size_t
  | Cout cout_line
  | DeleteData buffer
  | DeleteReadData
  | DeleteReq
  | DeleteSendReq

text \<open>\<^verbatim>\<open>errorCallback\<close> (the same function in both files): the callback is called with the
  message as its only argument, then its handle is disposed of.\<close>

definition errorCallback :: "jsval \<Rightarrow> string \<Rightarrow> event list" where
  "errorCallback callback errMsg = [Call callback [JString errMsg], Dispose callback]"

section \<open>ReadCommandFactory::create\<close>

text \<open>\<^verbatim>\<open>args[i]\<close>: an index past the arguments reads as undefined.\<close>

definition arg :: "jsval list \<Rightarrow> nat \<Rightarrow> jsval" where
  "arg args i = (if i < length args then args ! i else JUndefined)"

text \<open>
  The loop over the \<^verbatim>\<open>dimensions\<close> array: an entry is pushed to the schema when
  \<^verbatim>\<open>strtoul\<close> of its size string is not zero.
\<close>

definition parseSchema :: "jsval \<Rightarrow> Schema" where
  "parseSchema schemaObj =
     (case dimensions schemaObj of
        None \<Rightarrow> []
      | Some dimArray \<Rightarrow>
          foldl (\<lambda>schema dimObj.
                   (let size = strtoul (size_str dimObj) in
                    if size \<noteq> 0
                    then schema @ [\<lparr> dim_name = name_str dimObj, dim_type = type_str dimObj,
                                     dim_size = size \<rparr>]
                    else schema))
            [] dimArray)"

text \<open>
  \<^verbatim>\<open>create\<close> is one long function; its blocks are given one definition each, in the order of
  the source.  First the conditions of its \<^verbatim>\<open>if\<close> chain.
\<close>

definition validHostPortSchema :: "jsval list \<Rightarrow> bool" where
  "validHostPortSchema args =
     (3 < length args \<and>
      isDefined (arg args 0) \<and> IsString (arg args 0) \<and>
      isDefined (arg args 1) \<and> isInteger (arg args 1) \<and>
      isDefined (arg args 2) \<and> IsObject (arg args 2))"

definition isUnindexedArgs :: "jsval list \<Rightarrow> bool" where
  "isUnindexedArgs args =
     (length args = 6 \<and>
      isDefined (arg args 3) \<and> isInteger (arg args 3) \<and>
      isDefined (arg args 4) \<and> isInteger (arg args 4))"

definition isQuadIndexArgs :: "jsval list \<Rightarrow> bool" where
  "isQuadIndexArgs args =
     (length args = 7 \<and>
      ((isDefined (arg args 3) \<and> IsArray (arg args 3) \<and> 4 \<le> Length (arg args 3)) \<or>
       \<not> isDefined (arg args 3)) \<and>
      isDefined (arg args 4) \<and> isInteger (arg args 4) \<and>
      isDefined (arg args 5) \<and> isInteger (arg args 5))"

definition isPointRadiusArgs :: "jsval list \<Rightarrow> bool" where
  "isPointRadiusArgs args =
     (length args = 9 \<and>
      isDefined (arg args 3) \<and> IsBoolean (arg args 3) \<and>
      isDefined (arg args 4) \<and> IsNumber (arg args 4) \<and>
      isDefined (arg args 5) \<and> IsNumber (arg args 5) \<and>
      isDefined (arg args 6) \<and> IsNumber (arg args 6) \<and>
      isDefined (arg args 7) \<and> IsNumber (arg args 7))"

text \<open>
  What \<^verbatim>\<open>create\<close> gives back when it does not throw: what it did to the outside and the
  pointer it returns, the new command or null.
\<close>

type_synonym created = "event list \<times> ReadCommand option"

text \<open>\<^verbatim>\<open>readCommand = new ReadCommand...(...)\<close>: the new command is what \<^verbatim>\<open>create\<close> returns,
  with nothing reported; an exception of the constructor leaves \<^verbatim>\<open>create\<close>, which catches
  nothing.\<close>

definition built :: "ReadCommand outcome \<Rightarrow> created outcome" where
  "built r =
     (case r of
        Returns c \<Rightarrow> Returns ([], Some c)
      | ThrowsRuntimeError e \<Rightarrow> ThrowsRuntimeError e
      | ThrowsOther \<Rightarrow> ThrowsOther)"

text \<open>The body of the branch for an unindexed read: starting offset and count supplied.\<close>

definition createUnindexed ::
  "memory \<Rightarrow> jsval list \<Rightarrow> PdalSession \<Rightarrow> string \<Rightarrow> size_t \<Rightarrow> Schema \<Rightarrow> jsval
    \<Rightarrow> created outcome" where
  "createUnindexed mem args pdalSession host port schema callback =
     (let start = Uint32Value (arg args 3);
          count = Uint32Value (arg args 4)
      in
      if start < getNumPoints pdalSession
      then built (newReadCommand mem pdalSession host port schema callback
             (ReadCommandUnindexed start count))
      else Returns (errorCallback callback ''Invalid 'start' in 'read' request'', None))"

text \<open>The body of the branch of seven arguments.  The second comparison of the bounding box
  is \<^verbatim>\<open>yMax >= xMin\<close> in the source.\<close>

definition createQuadIndex ::
  "memory \<Rightarrow> jsval list \<Rightarrow> PdalSession \<Rightarrow> string \<Rightarrow> size_t \<Rightarrow> Schema \<Rightarrow> jsval
    \<Rightarrow> created outcome" where
  "createQuadIndex mem args pdalSession host port schema callback =
     (let depthBegin = Uint32Value (arg args 4);
          depthEnd = Uint32Value (arg args 5)
      in
      if isDefined (arg args 3)
      then
        let bbox = arg args 3 in
        if IsNumber (Get bbox 0) \<and> IsNumber (Get bbox 1) \<and>
           IsNumber (Get bbox 2) \<and> IsNumber (Get bbox 3)
        then
          let xMin = NumberValue (Get bbox 0);
              yMin = NumberValue (Get bbox 1);
              xMax = NumberValue (Get bbox 2);
              yMax = NumberValue (Get bbox 3)
          in
          if num_ge xMax xMin \<and> num_ge yMax xMin
          then built (newReadCommand mem pdalSession host port schema callback
                 (ReadCommandQuadIndex (Some (xMin, yMin, xMax, yMax)) depthBegin depthEnd))
          else Returns (errorCallback callback ''Invalid coords in query'', None)
        else Returns (errorCallback callback ''Invalid coord types in query'', None)
      else built (newReadCommand mem pdalSession host port schema callback
             (ReadCommandQuadIndex None depthBegin depthEnd)))"

text \<open>The body of the branch of nine arguments.\<close>

definition createPointRadius ::
  "memory \<Rightarrow> jsval list \<Rightarrow> PdalSession \<Rightarrow> string \<Rightarrow> size_t \<Rightarrow> Schema \<Rightarrow> jsval
    \<Rightarrow> created outcome" where
  "createPointRadius mem args pdalSession host port schema callback =
     (let is3d = BooleanValue (arg args 3);
          radius = NumberValue (arg args 4);
          x = NumberValue (arg args 5);
          y = NumberValue (arg args 6);
          z = NumberValue (arg args 7)
      in
      built (newReadCommand mem pdalSession host port schema callback
        (ReadCommandPointRadius is3d radius x y z)))"

text \<open>\<^verbatim>\<open>create\<close> throws when its last argument is no function, since it has then no way to
  report anything.\<close>

definition create :: "memory \<Rightarrow> jsval list \<Rightarrow> PdalSession \<Rightarrow> created outcome" where
  "create mem args pdalSession =
     (if length args = 0 \<or> \<not> IsFunction (arg args (length args - 1))
      then ThrowsRuntimeError (''Invalid callback supplied to 'read'' @ [CHR 0x27])
      else
        let callback = arg args (length args - 1) in
        if validHostPortSchema args
        then
          let host = Utf8Value (arg args 0);
              port = Uint32Value (arg args 1);
              schema = parseSchema (arg args 2)
          in
          if isUnindexedArgs args
          then createUnindexed mem args pdalSession host port schema callback
          else if isQuadIndexArgs args
          then createQuadIndex mem args pdalSession host port schema callback
          else if isPointRadiusArgs args
          then createPointRadius mem args pdalSession host port schema callback
          else Returns (errorCallback callback ''Could not identify 'read' from args'', None)
        else Returns (errorCallback callback ''Host, port, and callback must be supplied'', None))"

section \<open>Vocabulary of the properties\<close>

text \<open>The request a descriptor entry stands for, and the entries the parsing loop keeps.\<close>

definition toRequest :: "DimDescr \<Rightarrow> DimensionRequest" where
  "toRequest d = \<lparr> dim_name = name_str d, dim_type = type_str d, dim_size = strtoul (size_str d) \<rparr>"

definition kept :: "DimDescr \<Rightarrow> bool" where
  "kept d = (strtoul (size_str d) \<noteq> 0)"

text \<open>A small session for concrete runs: five points of one 8-byte dimension.\<close>

definition sampleSession :: PdalSession where
  "sampleSession =
     \<lparr> getNumPoints = 5,
       sessionStride = 8,
       nativeDims = [\<lparr> dim_name = ''X'', dim_type = ''floating'', dim_size = 8 \<rparr>],
       readLegacy = (\<lambda>b start count. (Some (count * 8), Returns count)),
       readUnindexed = (\<lambda>b schema start count. (b, Returns count)),
       readBBox = (\<lambda>b schema xMin yMin xMax yMax depthBegin depthEnd. (b, Returns 1)),
       readDepth = (\<lambda>b schema depthBegin depthEnd. (b, Returns 1)),
       readRadius = (\<lambda>b schema is3d radius x y z. (b, Returns 1)) \<rparr>"

definition sampleDims :: "DimDescr list" where
  "sampleDims =
     [\<lparr> name_str = ''X'', type_str = ''floating'', size_str = ''4'' \<rparr>,
      \<lparr> name_str = ''Y'', type_str = ''floating'', size_str = ''0'' \<rparr>,
      \<lparr> name_str = ''Z'', type_str = ''floating'', size_str = ''abc'' \<rparr>,
      \<lparr> name_str = ''Intensity'', type_str = ''unsigned'', size_str = ''0x10'' \<rparr>]"

text \<open>The command the constructor leaves when its allocation returns.\<close>

definition commandWith ::
  "PdalSession \<Rightarrow> string \<Rightarrow> size_t \<Rightarrow> Schema \<Rightarrow> jsval \<Rightarrow> query \<Rightarrow> ReadCommand" where
  "commandWith s h p schema cb q =
     \<lparr> m_pdalSession = s,
       m_host = h,
       m_port = p,
       m_schema = schemaOrDefault s schema,
       m_stride = getStride (schemaOrDefault s schema),
       m_callback = cb,
       m_cancel = False,
       m_data = Some (getStride (schemaOrDefault s schema) * getNumPoints s),
       m_bufferTransmitter = None,
       m_errMsg = [],
       m_numPoints = 0,
       m_numBytes = 0,
       m_query = q \<rparr>"

text \<open>A memory that serves every array below one gigabyte and no other.\<close>

definition sampleMemory :: memory where
  "sampleMemory n = (n < 1073741824)"

text \<open>A command as its constructor leaves it, for the schema the factory parsed.\<close>

definition fresh :: "PdalSession \<Rightarrow> Schema \<Rightarrow> ReadCommand \<Rightarrow> bool" where
  "fresh s schema c =
     (m_schema c = schemaOrDefault s schema \<and>
      m_stride c = getStride (m_schema c) \<and>
      m_data c = Some (getStride (schemaOrDefault s schema) * getNumPoints s) \<and>
      m_numPoints c = 0 \<and> m_numBytes c = 0 \<and> m_bufferTransmitter c = None)"

text \<open>The seven arguments of a spatial read with the given bounding-box array.\<close>

definition bboxArgs :: "jsval list \<Rightarrow> jsval list" where
  "bboxArgs bbox =
     [JString ''h'', JNumber (Fin 80), JObject None, JArray bbox,
      JNumber (Fin 0), JNumber (Fin 1), JFunction 0]"

text \<open>The six arguments of an unindexed read of three points from the start, with the given
  schema descriptor.\<close>

definition describedArgs :: "DimDescr list \<Rightarrow> jsval list" where
  "describedArgs ds =
     [JString ''h'', JNumber (Fin 80), JObject (Some ds),
      JNumber (Fin 0), JNumber (Fin 3), JFunction 0]"

text \<open>The six arguments of an unindexed read of the given start and count, with a schema of
  one 4-byte dimension.\<close>

definition rangeArgs :: "real \<Rightarrow> real \<Rightarrow> jsval list" where
  "rangeArgs start count =
     [JString ''h'', JNumber (Fin 80),
      JObject (Some [\<lparr> name_str = ''X'', type_str = ''floating'', size_str = ''4'' \<rparr>]),
      JNumber (Fin start), JNumber (Fin count), JFunction 0]"

section \<open>The transmitter and the network\<close>

text \<open>
  \<^verbatim>\<open>BufferTransmitter\<close> is declared outside these sources.  What the program needs of it
  is taken as given: whether its constructor, which is handed host and port, returns or
  throws, and whether the \<open>k\<close>-th call of \<^verbatim>\<open>transmit(offset, numBytes)\<close> throws.
\<close>

record Network =
  connectTo :: "string \<Rightarrow> size_t \<Rightarrow> unit outcome"
  transmitFails :: "nat \<Rightarrow> size_t \<Rightarrow> size_t \<Rightarrow> bool"

definition chunkSize :: size_t where
  "chunkSize = 65536"

section \<open>ReadCommand: run and transmit\<close>

text \<open>The \<^verbatim>\<open>read\<close> of the session that the \<^verbatim>\<open>run\<close> of each subclass calls, with the address of
  \<open>m_data\<close> as first argument.\<close>

fun readQuery :: "query \<Rightarrow> ReadCommand \<Rightarrow> read_result" where
  "readQuery (ReadCommandUnindexed start count) c =
     readUnindexed (m_pdalSession c) (m_data c) (m_schema c) start count"
| "readQuery (ReadCommandQuadIndex (Some (xMin, yMin, xMax, yMax)) depthBegin depthEnd) c =
     readBBox (m_pdalSession c) (m_data c) (m_schema c) xMin yMin xMax yMax depthBegin depthEnd"
| "readQuery (ReadCommandQuadIndex None depthBegin depthEnd) c =
     readDepth (m_pdalSession c) (m_data c) (m_schema c) depthBegin depthEnd"
| "readQuery (ReadCommandPointRadius is3d radius x y z) c =
     readRadius (m_pdalSession c) (m_data c) (m_schema c) is3d radius x y z"

text \<open>
  \<^verbatim>\<open>run\<close>: \<^verbatim>\<open>setNumPoints(m_pdalSession->read(&m_data, ...))\<close>, then the transmitter is
  constructed over \<open>m_data\<close> and \<^verbatim>\<open>numBytes()\<close>.  An exception leaves \<^verbatim>\<open>run\<close> with the command
  as it is at that point; the result is what \<^verbatim>\<open>run\<close> throws, if anything, and the command
  afterwards.
\<close>

definition run :: "Network \<Rightarrow> ReadCommand \<Rightarrow> unit outcome \<times> ReadCommand" where
  "run net c =
     (case readQuery (m_query c) c of
        (d, ThrowsRuntimeError e) \<Rightarrow> (ThrowsRuntimeError e, c\<lparr> m_data := d \<rparr>)
      | (d, ThrowsOther) \<Rightarrow> (ThrowsOther, c\<lparr> m_data := d \<rparr>)
      | (d, Returns n) \<Rightarrow>
          (let c1 = setNumPoints n (c\<lparr> m_data := d \<rparr>) in
           case connectTo net (m_host c1) (m_port c1) of
             Returns u \<Rightarrow>
               (Returns (),
                c1\<lparr> m_bufferTransmitter :=
                      Some (m_host c1, m_port c1, m_data c1, m_numBytes c1) \<rparr>)
           | ThrowsRuntimeError e \<Rightarrow> (ThrowsRuntimeError e, c1)
           | ThrowsOther \<Rightarrow> (ThrowsOther, c1)))"

text \<open>
  \<^verbatim>\<open>ReadCommand::transmit\<close> forwards to the transmitter and writes no member of the
  command.  \<open>None\<close>: the transmitter pointer is empty and is dereferenced.
\<close>

definition transmit :: "Network \<Rightarrow> nat \<Rightarrow> size_t \<Rightarrow> size_t \<Rightarrow> ReadCommand \<Rightarrow> unit outcome option" where
  "transmit net k offset len c =
     (case m_bufferTransmitter c of
        None \<Rightarrow> None
      | Some bt \<Rightarrow> Some (if transmitFails net k offset len then ThrowsOther else Returns ()))"

text \<open>The member functions of these sources that can be called on a command during its life,
  and the command after each.\<close>

datatype command_call = Run Network | TransmitCall Network nat size_t size_t | SetNumPoints size_t

fun after_call :: "ReadCommand \<Rightarrow> command_call \<Rightarrow> ReadCommand" where
  "after_call c (Run net) = snd (run net c)"
| "after_call c (TransmitCall net k offset len) = c"
| "after_call c (SetNumPoints n) = setNumPoints n c"

section \<open>PdalBindings::read\<close>

text \<open>
  \<^verbatim>\<open>ReadData\<close>, the structure the three tasks of a read share.  Its declaration is in
  \<^verbatim>\<open>pdal-bindings.hpp\<close>, outside these sources; the members are the ones \<^verbatim>\<open>read\<close> and
  \<^verbatim>\<open>cancel\<close> use.
\<close>

record ReadData =
  pdalSession :: PdalSession
  host :: string
  port :: size_t
  start :: size_t
  count :: size_t
  callback :: jsval
  data :: buffer
  numPoints :: size_t
  numBytes :: size_t
  bufferTransmitter :: "(string \<times> size_t \<times> buffer \<times> size_t) option"
  errMsg :: string
  cancel :: bool

text \<open>
  Modelled from the spec: the constructor of \<^verbatim>\<open>ReadData\<close>, which is not among the sources.
  The spec has the buffer null until the retrieval has run, no cancellation requested and
  no error at the start; the counts start at 0.
\<close>

definition newReadData ::
  "PdalSession \<Rightarrow> string \<Rightarrow> size_t \<Rightarrow> size_t \<Rightarrow> size_t \<Rightarrow> jsval \<Rightarrow> ReadData" where
  "newReadData session h p s n cb =
     \<lparr> pdalSession = session, host = h, port = p, start = s, count = n, callback = cb,
       data = None, numPoints = 0, numBytes = 0, bufferTransmitter = None,
       errMsg = [], cancel = False \<rparr>"

text \<open>
  The work of the read request.  The session's \<^verbatim>\<open>read\<close> is given the address of
  \<^verbatim>\<open>readData->data\<close> and allocates the array; then \<open>numBytes\<close> is set from the stride of the
  session and the transmitter is constructed.  Both handlers store a message and return.
\<close>

definition readWork :: "Network \<Rightarrow> ReadData \<Rightarrow> ReadData" where
  "readWork net readData =
     (case readLegacy (pdalSession readData) (data readData) (start readData) (count readData) of
        (d, ThrowsRuntimeError e) \<Rightarrow> readData\<lparr> data := d, errMsg := e \<rparr>
      | (d, ThrowsOther) \<Rightarrow> readData\<lparr> data := d, errMsg := ''Unknown error'' \<rparr>
      | (d, Returns n) \<Rightarrow>
          (let rd1 = readData\<lparr> data := d, numPoints := n \<rparr>;
               rd2 = rd1\<lparr> numBytes := numPoints rd1 * sessionStride (pdalSession rd1) \<rparr>
           in case connectTo net (host rd2) (port rd2) of
                Returns u \<Rightarrow>
                  rd2\<lparr> bufferTransmitter := Some (host rd2, port rd2, data rd2, numBytes rd2) \<rparr>
              | ThrowsRuntimeError e \<Rightarrow> rd2\<lparr> errMsg := e \<rparr>
              | ThrowsOther \<Rightarrow> rd2\<lparr> errMsg := ''Unknown error'' \<rparr>))"

text \<open>\<^verbatim>\<open>Integer::New\<close> takes an \<^verbatim>\<open>int32_t\<close>: the \<^verbatim>\<open>std::size_t\<close> is cut to its low 32 bits, read
  as two's complement.\<close>

definition IntegerNew :: "size_t \<Rightarrow> jsval" where
  "IntegerNew n =
     (let m = uint n mod 2 ^ 32 in
      JNumber (Fin (of_int (if m < 2 ^ 31 then m else m - 2 ^ 32))))"

text \<open>
  What runs after the work of the read request: with a message stored, the error is
  reported and everything is deleted; otherwise the callback gets the counts and the
  transmission is queued.  The boolean tells whether it was queued.
\<close>

definition afterRead :: "ReadData \<Rightarrow> event list \<times> bool" where
  "afterRead readData =
     (if length (errMsg readData) \<noteq> 0
      then (errorCallback (callback readData) (errMsg readData) @
              [DeleteData (data readData), DeleteReadData], False)
      else ([Call (callback readData)
               [JNull, IntegerNew (numPoints readData), IntegerNew (numBytes readData)],
             Dispose (callback readData), QueueSend, DeleteReq], True))"

text \<open>
  The loop of the transmission.  The flag \<^verbatim>\<open>readData->cancel\<close> is written by another thread;
  \<open>cancelSeen i\<close> is the value the \<open>i\<close>-th read of the flag by this task finds.  The test
  \<^verbatim>\<open>offset < numBytes && !readData->cancel\<close> reads the flag only when the first conjunct
  holds, so inside the loop the number of reads so far is also the number of calls of
  \<^verbatim>\<open>transmit\<close> so far.  The loop may not end (the offset can wrap around), hence the fuel;
  \<open>None\<close> is a loop that has not ended within it.
\<close>

datatype loop_exit = Exited nat size_t | Caught | Crashed

fun sendLoop ::
  "nat \<Rightarrow> Network \<Rightarrow> (nat \<Rightarrow> bool) \<Rightarrow> ReadData \<Rightarrow> nat \<Rightarrow> size_t \<Rightarrow> (event list \<times> loop_exit) option"
  where
  "sendLoop 0 net cancelSeen readData i offset = None"
| "sendLoop (Suc fuel) net cancelSeen readData i offset =
     (if offset < numBytes readData
      then
        if \<not> cancelSeen i
        then
          (case bufferTransmitter readData of
             None \<Rightarrow> Some ([], Crashed)
           | Some bt \<Rightarrow>
               (let len = min chunkSize (numBytes readData - offset) in
                if transmitFails net i offset len
                then Some ([Transmit offset len], Caught)
                else
                  (case sendLoop fuel net cancelSeen readData (Suc i) (offset + chunkSize) of
                     None \<Rightarrow> None
                   | Some (evs, r) \<Rightarrow> Some (Transmit offset len # evs, r))))
        else Some ([], Exited (Suc i) offset)
      else Some ([], Exited i offset))"

text \<open>
  The work of the send request: the loop from offset 0, then one more read of the flag for
  the line \<^verbatim>\<open>CANCELLED at (offset / numBytes) bytes\<close>; any exception is caught and logged.
  The boolean tells whether the task died on the empty transmitter pointer.
\<close>

definition sendWork ::
  "nat \<Rightarrow> Network \<Rightarrow> (nat \<Rightarrow> bool) \<Rightarrow> ReadData \<Rightarrow> (event list \<times> bool) option" where
  "sendWork fuel net cancelSeen readData =
     (case sendLoop fuel net cancelSeen readData 0 0 of
        None \<Rightarrow> None
      | Some (evs, Exited i offset) \<Rightarrow>
          Some (evs @ (if cancelSeen i then [Cout (CancelledAt offset (numBytes readData))] else []),
                False)
      | Some (evs, Caught) \<Rightarrow> Some (evs @ [Cout CaughtErrorTransmittingBuffer], False)
      | Some (evs, Crashed) \<Rightarrow> Some (evs, True))"

text \<open>What runs after the work of the send request.\<close>

definition afterSend :: "ReadData \<Rightarrow> event list" where
  "afterSend readData = [DeleteData (data readData), DeleteReadData, DeleteSendReq]"

text \<open>The three tasks in their order, from the \<^verbatim>\<open>ReadData\<close> that \<^verbatim>\<open>read\<close> has queued.\<close>

definition readTasks ::
  "nat \<Rightarrow> Network \<Rightarrow> (nat \<Rightarrow> bool) \<Rightarrow> ReadData \<Rightarrow> event list option" where
  "readTasks fuel net cancelSeen readData0 =
     (let readData = readWork net readData0 in
      case afterRead readData of
        (evs1, False) \<Rightarrow> Some evs1
      | (evs1, True) \<Rightarrow>
          (case sendWork fuel net cancelSeen readData of
             None \<Rightarrow> None
           | Some (evs2, True) \<Rightarrow> Some (evs1 @ evs2)
           | Some (evs2, False) \<Rightarrow> Some (evs1 @ evs2 @ afterSend readData)))"

section \<open>Vocabulary of the properties: counts, chunks and traces\<close>

text \<open>The byte count of a command agrees with its point count and the stride of its schema.\<close>

definition counts_agree :: "ReadCommand \<Rightarrow> bool" where
  "counts_agree c =
     (m_numBytes c = m_numPoints c * m_stride c \<and> m_stride c = getStride (m_schema c))"

text \<open>A network on which every connection and every write succeeds.\<close>

definition sampleNetwork :: Network where
  "sampleNetwork = \<lparr> connectTo = (\<lambda>h p. Returns ()), transmitFails = (\<lambda>k off len. False) \<rparr>"

text \<open>
  The chunks as the spec words them, for a buffer of \<open>n\<close> bytes, each with offset and
  length: none when \<open>n\<close> is zero; otherwise chunks of 64 KiB at the offsets 0, 64 KiB,
  128 KiB, ... and a final chunk of \<open>n mod 64 KiB\<close> bytes, or of 64 KiB when that is zero.
\<close>

definition chunkPlan :: "nat \<Rightarrow> (nat \<times> nat) list" where
  "chunkPlan n =
     (if n = 0 then []
      else map (\<lambda>i. (i * 65536, 65536)) [0 ..< (n - 1) div 65536] @
           [((n - 1) div 65536 * 65536, if n mod 65536 = 0 then 65536 else n mod 65536)])"

text \<open>A list of chunks covers the bytes from \<open>a\<close> up to \<open>b\<close>: each chunk is not empty and
  starts where the one before it ends, the first at \<open>a\<close>, and the last ends at \<open>b\<close>.\<close>

fun covers :: "nat \<Rightarrow> nat \<Rightarrow> (nat \<times> nat) list \<Rightarrow> bool" where
  "covers a b [] = (a = b)"
| "covers a b (c # cs) = (fst c = a \<and> 0 < snd c \<and> covers (a + snd c) b cs)"

text \<open>The chunks the loop of the program walks through from an offset on, as numbers.\<close>

function chunksFrom :: "nat \<Rightarrow> nat \<Rightarrow> (nat \<times> nat) list" where
  "chunksFrom off n =
     (if off < n then (off, min 65536 (n - off)) # chunksFrom (off + 65536) n else [])"
  by pat_completeness auto
termination
  by (relation "measure (\<lambda>(off, n). n - off)") auto

declare chunksFrom.simps [simp del]

definition toTransmit :: "nat \<times> nat \<Rightarrow> event" where
  "toTransmit c = Transmit (of_nat (fst c)) (of_nat (snd c))"

text \<open>Reading a trace: its writes, its calls of JavaScript functions, its deletions of the
  buffer, and the number of bytes handed to \<^verbatim>\<open>transmit\<close>.\<close>

fun isTransmit :: "event \<Rightarrow> bool" where
  "isTransmit (Transmit off len) = True"
| "isTransmit _ = False"

fun isCall :: "event \<Rightarrow> bool" where
  "isCall (Call f xs) = True"
| "isCall _ = False"

fun isDeleteData :: "event \<Rightarrow> bool" where
  "isDeleteData (DeleteData b) = True"
| "isDeleteData _ = False"

fun sentBytes :: "event \<Rightarrow> nat" where
  "sentBytes (Transmit off len) = unat len"
| "sentBytes _ = 0"

definition transmitted :: "event list \<Rightarrow> nat" where
  "transmitted evs = sum_list (map sentBytes evs)"

section \<open>PdalBindings: the object, the synchronous part of read, and cancel\<close>

text \<open>
  The object holds the session pointer and \<open>m_readData\<close>, the pointer to the \<^verbatim>\<open>ReadData\<close> of
  the read accepted last; the constructor leaves both null.  The \<^verbatim>\<open>ReadData\<close> structures
  live on the heap: a list indexed by address, \<open>None\<close> where the structure has been deleted.
  \<^verbatim>\<open>new\<close> takes the next address.
\<close>

record PdalBindings =
  m_pdalSession' :: "PdalSession option"
  m_readData :: "nat option"

type_synonym heap = "ReadData option list"

definition lookup :: "heap \<Rightarrow> nat \<Rightarrow> ReadData option" where
  "lookup hp p = (if p < length hp then hp ! p else None)"

text \<open>How a call of a method ends: it returns, it throws a \<^verbatim>\<open>std::runtime_error\<close>, or it
  does what the language does not define (a null pointer or a deleted structure is
  accessed, a value that is no function is called).\<close>

datatype 'a call = Done 'a | Thrown string | NullDereference | UseAfterFree | CallOfNonFunction

text \<open>The chain of checks at the head of \<^verbatim>\<open>read\<close>: the message it leaves in \<^verbatim>\<open>errMsg\<close>, or the
  exception for a missing callback, which is only looked at when the four other arguments
  are right.\<close>

definition readErrMsg :: "jsval list \<Rightarrow> string outcome" where
  "readErrMsg args =
     (if IsUndefined (arg args 0) \<or> \<not> IsString (arg args 0)
      then Returns '''host' must be a string - args[0]''
      else if IsUndefined (arg args 1) \<or> \<not> IsNumber (arg args 1)
      then Returns '''port' must be a number - args[1]''
      else if IsUndefined (arg args 2) \<or> \<not> IsNumber (arg args 2)
      then Returns '''start' offset must be a number - args[2]''
      else if IsUndefined (arg args 3) \<or> \<not> IsNumber (arg args 3)
      then Returns '''count' must be a number - args[3]''
      else if IsUndefined (arg args 4) \<or> \<not> IsFunction (arg args 4)
      then ThrowsRuntimeError (''Invalid callback supplied to 'read'' @ [CHR 0x27])
      else Returns [])"

text \<open>
  The part of \<^verbatim>\<open>read\<close> that runs before it returns.  The result is what it did to the
  outside, the object and the heap afterwards, and the address of the \<^verbatim>\<open>ReadData\<close> whose
  tasks it has queued, if any.  The cast of argument 4 to a function is unchecked.
\<close>

definition PdalBindings_read ::
  "jsval list \<Rightarrow> PdalBindings \<times> heap \<Rightarrow> (event list \<times> (PdalBindings \<times> heap) \<times> nat option) call"
  where
  "PdalBindings_read args w =
     (case readErrMsg args of
        ThrowsRuntimeError e \<Rightarrow> Thrown e
      | ThrowsOther \<Rightarrow> Thrown []
      | Returns msg \<Rightarrow>
          (let cb = arg args 4 in
           if length msg \<noteq> 0
           then (if IsFunction cb then Done (errorCallback cb msg, w, None) else CallOfNonFunction)
           else
             (let h = Utf8Value (arg args 0);
                  p = Uint32Value (arg args 1);
                  s = Uint32Value (arg args 2);
                  n = Uint32Value (arg args 3)
              in
              case m_pdalSession' (fst w) of
                None \<Rightarrow> NullDereference
              | Some session \<Rightarrow>
                  if getNumPoints session \<le> s
                  then Done (errorCallback cb ''Invalid start offset in 'read' request'', w, None)
                  else Done ([QueueRead],
                             ((fst w)\<lparr> m_readData := Some (length (snd w)) \<rparr>,
                              snd w @ [Some (newReadData session h p s n cb)]),
                             Some (length (snd w))))))"

text \<open>\<^verbatim>\<open>delete readData\<close>, which ends both the branch for a failed retrieval and the step after
  the transmission.  Neither touches \<open>m_readData\<close>.\<close>

definition deleteReadData :: "nat \<Rightarrow> PdalBindings \<times> heap \<Rightarrow> PdalBindings \<times> heap" where
  "deleteReadData p w = (fst w, (snd w)[p := None])"

text \<open>\<^verbatim>\<open>cancel\<close>: with \<open>m_readData\<close> not null, the flag of the structure it points to is set
  and the answer is true; otherwise the answer is false.\<close>

definition PdalBindings_cancel ::
  "PdalBindings \<times> heap \<Rightarrow> (event list \<times> bool \<times> (PdalBindings \<times> heap)) call" where
  "PdalBindings_cancel w =
     (case m_readData (fst w) of
        None \<Rightarrow> Done ([], False, w)
      | Some p \<Rightarrow>
          (case lookup (snd w) p of
             None \<Rightarrow> UseAfterFree
           | Some readData \<Rightarrow>
               Done ([Cout Cancelling], True,
                     (fst w, (snd w)[p := Some (readData\<lparr> cancel := True \<rparr>)]))))"

text \<open>The answers of two calls of \<^verbatim>\<open>cancel\<close> in sequence, when both return.\<close>

definition twoCancels :: "PdalBindings \<times> heap \<Rightarrow> (bool \<times> bool) option" where
  "twoCancels w =
     (case PdalBindings_cancel w of
        Done (e1, b1, w1) \<Rightarrow>
          (case PdalBindings_cancel w1 of
             Done (e2, b2, w2) \<Rightarrow> Some (b1, b2)
           | _ \<Rightarrow> None)
      | _ \<Rightarrow> None)"

text \<open>Sample values: an object with the sample session and no read yet, a read of three
  points from the start, a session whose read throws a \<^verbatim>\<open>std::runtime_error\<close> with an empty
  message, and the flag seen set from the second look on.\<close>

definition sampleBindings :: PdalBindings where
  "sampleBindings = \<lparr> m_pdalSession' = Some sampleSession, m_readData = None \<rparr>"

definition sampleReadArgs :: "jsval list" where
  "sampleReadArgs =
     [JString ''h'', JNumber (Fin 80), JNumber (Fin 0), JNumber (Fin 3), JFunction 0]"

definition silentFailureSession :: PdalSession where
  "silentFailureSession =
     sampleSession\<lparr> readLegacy := (\<lambda>b s n. (None, ThrowsRuntimeError [])) \<rparr>"

definition cancelledAfterFirstChunk :: "nat \<Rightarrow> bool" where
  "cancelledAfterFirstChunk i = (1 \<le> i)"

text \<open>The \<^verbatim>\<open>ReadData\<close> of a read of \<open>n\<close> points on the sample session, after the work of the read
  request on the sample network.\<close>

definition sampleReadData :: "size_t \<Rightarrow> ReadData" where
  "sampleReadData n = readWork sampleNetwork (newReadData sampleSession ''h'' 80 0 n (JFunction 0))"

section \<open>Verified properties\<close>

subsection \<open>The two loops as list functions\<close>

lemma parse_loop_acc:
  "foldl (\<lambda>schema dimObj.
            (let size = strtoul (size_str dimObj) in
             if size \<noteq> 0
             then schema @ [\<lparr> dim_name = name_str dimObj, dim_type = type_str dimObj,
                              dim_size = size \<rparr>]
             else schema)) acc ds
   = acc @ map toRequest (filter kept ds)"
  by (induction ds arbitrary: acc) (simp_all add: toRequest_def kept_def Let_def)

lemma parseSchema_filter:
  "parseSchema (JObject (Some ds)) = map toRequest (filter kept ds)"
  by (simp add: parseSchema_def parse_loop_acc)

lemma stride_loop_acc:
  "foldl (\<lambda>stride dim. stride + dim_size dim) a sch = a + sum_list (map dim_size sch)"
  by (induction sch arbitrary: a) (simp_all add: add.assoc)

lemma getStride_sum: "getStride sch = sum_list (map dim_size sch)"
  by (simp add: getStride_def stride_loop_acc)

subsection \<open>The factory reads the schema descriptor through its parse only\<close>

lemma arg_update_other: "i \<noteq> j \<Longrightarrow> arg (args[j := v]) i = arg args i"
  by (simp add: arg_def)

lemma arg_update_same: "arg (args[j := v]) j = (if j < length args then v else JUndefined)"
  by (simp add: arg_def)

lemma valid_update_schema:
  "validHostPortSchema (args[2 := JObject a]) = validHostPortSchema (args[2 := JObject b])"
  by (simp add: validHostPortSchema_def arg_update_other arg_update_same isDefined_def)

lemma newReadCommand_eq:
  "newReadCommand mem s h p schema cb q =
     (if mem (getStride (schemaOrDefault s schema) * getNumPoints s)
      then Returns (commandWith s h p schema cb q)
      else ThrowsOther)"
  unfolding newReadCommand_def commandWith_def Let_def by simp

lemma built_new:
  "built (newReadCommand mem s h p schema cb q) =
     (if mem (getStride (schemaOrDefault s schema) * getNumPoints s)
      then Returns ([], Some (commandWith s h p schema cb q))
      else ThrowsOther)"
  by (simp add: newReadCommand_eq built_def)

lemma create_schema_cong:
  assumes "parseSchema (JObject a) = parseSchema (JObject b)"
  shows "create mem (args[2 := JObject a]) s = create mem (args[2 := JObject b]) s"
proof -
  consider "length args < 3" | "length args = 3" | "3 < length args" by linarith
  then show ?thesis
  proof cases
    case 1
    then show ?thesis by (simp add: list_update_beyond)
  next
    case 2
    then show ?thesis by (simp add: create_def arg_update_same)
  next
    case 3
    have v: "validHostPortSchema (args[2 := JObject a]) = validHostPortSchema (args[2 := JObject b])"
      by (rule valid_update_schema)
    have p: "parseSchema (arg (args[2 := JObject a]) 2) = parseSchema (arg (args[2 := JObject b]) 2)"
      using assms 3 by (simp add: arg_update_same)
    have u: "isUnindexedArgs (args[2 := JObject a]) = isUnindexedArgs (args[2 := JObject b])"
      by (simp add: isUnindexedArgs_def arg_update_other)
    have q: "isQuadIndexArgs (args[2 := JObject a]) = isQuadIndexArgs (args[2 := JObject b])"
      by (simp add: isQuadIndexArgs_def arg_update_other)
    have r: "isPointRadiusArgs (args[2 := JObject a]) = isPointRadiusArgs (args[2 := JObject b])"
      by (simp add: isPointRadiusArgs_def arg_update_other)
    have cu: "\<And>h p sch cb. createUnindexed mem (args[2 := JObject a]) s h p sch cb
        = createUnindexed mem (args[2 := JObject b]) s h p sch cb"
      by (simp add: createUnindexed_def arg_update_other)
    have cq: "\<And>h p sch cb. createQuadIndex mem (args[2 := JObject a]) s h p sch cb
        = createQuadIndex mem (args[2 := JObject b]) s h p sch cb"
      by (simp add: createQuadIndex_def arg_update_other Let_def)
    have cr: "\<And>h p sch cb. createPointRadius mem (args[2 := JObject a]) s h p sch cb
        = createPointRadius mem (args[2 := JObject b]) s h p sch cb"
      by (simp add: createPointRadius_def arg_update_other)
    from 3 have cbk: "arg (args[2 := JObject a]) (length args - 1)
        = arg (args[2 := JObject b]) (length args - 1)"
      by (simp add: arg_update_other)
    have a01: "arg (args[2 := JObject a]) 0 = arg (args[2 := JObject b]) 0"
      "arg (args[2 := JObject a]) 1 = arg (args[2 := JObject b]) 1"
      by (simp_all add: arg_update_other)
    show ?thesis
      unfolding create_def Let_def
      using v p u q r cbk a01
      by (simp add: cu cq cr)
  qed
qed

subsection \<open>A command the factory returns\<close>

lemma fresh_commandWith: "fresh s schema (commandWith s h p schema cb q)"
  by (simp add: fresh_def commandWith_def)

lemma built_new_fresh:
  "built (newReadCommand mem s h p schema cb q) = Returns (evs, Some c) \<Longrightarrow>
   evs = [] \<and> fresh s schema c"
  by (auto simp: built_new fresh_commandWith split: if_splits)

lemma createUnindexed_fresh:
  "createUnindexed mem args s h p schema cb = Returns (evs, Some c) \<Longrightarrow>
   evs = [] \<and> fresh s schema c"
  by (auto simp: createUnindexed_def Let_def split: if_splits dest: built_new_fresh)

lemma createQuadIndex_fresh:
  "createQuadIndex mem args s h p schema cb = Returns (evs, Some c) \<Longrightarrow>
   evs = [] \<and> fresh s schema c"
  by (auto simp: createQuadIndex_def Let_def split: if_splits dest: built_new_fresh)

lemma createPointRadius_fresh:
  "createPointRadius mem args s h p schema cb = Returns (evs, Some c) \<Longrightarrow>
   evs = [] \<and> fresh s schema c"
  by (auto simp: createPointRadius_def Let_def dest: built_new_fresh)

lemma create_fresh:
  assumes "create mem args s = Returns (evs, Some c)"
  shows "evs = [] \<and> fresh s (parseSchema (arg args 2)) c"
  using assms unfolding create_def Let_def
  by (auto split: if_splits dest: createUnindexed_fresh createQuadIndex_fresh createPointRadius_fresh)

lemma create_returns_valid:
  assumes "create mem args s = Returns (evs, Some c)"
  shows "validHostPortSchema args"
  using assms unfolding create_def Let_def by (auto split: if_splits)

subsection \<open>Dimensions of size zero\<close>

text \<open>
  Claim C8, amended.  The factory keeps, in their order, exactly the entries of the
  descriptor whose size string \<^verbatim>\<open>strtoul\<close> converts to a number other than zero, each with
  its name, its type and the converted size; an entry whose size converts to zero (the
  digit 0, or no digit at all, which is how \<^verbatim>\<open>strtoul\<close> fails) is left out, and nothing is
  reported for it: the factory returns what it returns for the descriptor without these
  entries.  In a command the factory returns, the resolved schema \<open>m_schema\<close> is the list
  of the kept entries and the stride \<open>m_stride\<close> the sum of their sizes, provided one
  entry at least is kept.  When no entry is kept, the resolved schema is the list of the
  native dimensions of the session and the stride the sum of their sizes, so a dimension
  left out for its size can be back in the schema with its native size.
\<close>

theorem kept_dimensions_or_native_schema:
  "parseSchema (JObject (Some ds)) = map toRequest (filter kept ds) \<and>
   create mem (args[2 := JObject (Some ds)]) s
     = create mem (args[2 := JObject (Some (filter kept ds))]) s \<and>
   (\<forall>evs c. create mem (args[2 := JObject (Some ds)]) s = Returns (evs, Some c) \<longrightarrow>
      evs = [] \<and>
      (filter kept ds \<noteq> [] \<longrightarrow>
         m_schema c = map toRequest (filter kept ds) \<and>
         m_stride c = sum_list (map (\<lambda>d. strtoul (size_str d)) (filter kept ds))) \<and>
      (filter kept ds = [] \<longrightarrow>
         m_schema c = nativeDims s \<and>
         m_stride c = sum_list (map dim_size (nativeDims s))))"
proof (intro conjI allI impI)
  show "parseSchema (JObject (Some ds)) = map toRequest (filter kept ds)"
    by (rule parseSchema_filter)
  show "create mem (args[2 := JObject (Some ds)]) s
      = create mem (args[2 := JObject (Some (filter kept ds))]) s"
    by (rule create_schema_cong) (simp add: parseSchema_filter)
next
  fix evs c
  assume r: "create mem (args[2 := JObject (Some ds)]) s = Returns (evs, Some c)"
  have "3 < length (args[2 := JObject (Some ds)])"
    using create_returns_valid [OF r] by (simp add: validHostPortSchema_def)
  then have a: "arg (args[2 := JObject (Some ds)]) 2 = JObject (Some ds)"
    by (simp add: arg_update_same)
  have f: "evs = [] \<and> fresh s (map toRequest (filter kept ds)) c"
    using create_fresh [OF r] by (simp add: a parseSchema_filter)
  then show "evs = []" by simp
  have sz: "map dim_size (map toRequest (filter kept ds))
      = map (\<lambda>d. strtoul (size_str d)) (filter kept ds)"
    by (simp add: toRequest_def)
  {
    assume k: "filter kept ds \<noteq> []"
    then have "schemaOrDefault s (map toRequest (filter kept ds)) = map toRequest (filter kept ds)"
      by (simp add: schemaOrDefault_def)
    then show "m_schema c = map toRequest (filter kept ds)"
      using f by (simp add: fresh_def)
    then show "m_stride c = sum_list (map (\<lambda>d. strtoul (size_str d)) (filter kept ds))"
      using f sz by (simp add: fresh_def getStride_sum del: map_map)
  }
  {
    assume k: "filter kept ds = []"
    then have "schemaOrDefault s (map toRequest (filter kept ds)) = nativeDims s"
      by (simp add: schemaOrDefault_def)
    then show "m_schema c = nativeDims s"
      using f by (simp add: fresh_def)
    then show "m_stride c = sum_list (map dim_size (nativeDims s))"
      using f by (simp add: fresh_def getStride_sum)
  }
qed

subsection \<open>The buffer of a new command\<close>

text \<open>
  Claim C9.  Every command the factory returns comes out of the constructor with its buffer
  already allocated, before any \<^verbatim>\<open>run\<close>: no point has been read (\<open>m_numPoints\<close> and
  \<open>m_numBytes\<close> are 0, there is no transmitter yet) and \<open>m_data\<close> is an array of
  \<open>m_stride * getNumPoints\<close> bytes, the stride of the resolved schema times the number of
  points of the whole data set, in \<^verbatim>\<open>std::size_t\<close> arithmetic.  The size is a function of
  the schema descriptor and the session alone: start, count, bounding box, depths and radius
  do not occur in it.  The factory is a synchronous function of the accepting thread, so
  this is the state in which the command is handed over.
\<close>

theorem buffer_allocated_by_constructor:
  assumes "create mem args s = Returns (evs, Some c)"
  shows "evs = [] \<and>
         m_data c = Some (getStride (schemaOrDefault s (parseSchema (arg args 2))) * getNumPoints s) \<and>
         m_schema c = schemaOrDefault s (parseSchema (arg args 2)) \<and>
         m_stride c = getStride (m_schema c) \<and>
         m_numPoints c = 0 \<and> m_numBytes c = 0 \<and> m_bufferTransmitter c = None"
  using create_fresh [OF assms] by (simp add: fresh_def)

subsection \<open>The branch of seven arguments\<close>

lemma isInteger_isDefined: "isInteger v \<Longrightarrow> isDefined v"
  by (cases v) (simp_all add: isInteger_def isDefined_def)

lemma create_seven_array:
  assumes "length args = 7" "IsFunction (arg args 6)" "validHostPortSchema args"
    "arg args 3 = JArray xs"
  shows "create mem args s =
    (if 4 \<le> length xs \<and> isInteger (arg args 4) \<and> isInteger (arg args 5)
     then createQuadIndex mem args s (Utf8Value (arg args 0)) (Uint32Value (arg args 1))
            (parseSchema (arg args 2)) (arg args 6)
     else Returns (errorCallback (arg args 6) ''Could not identify 'read' from args'', None))"
  using assms
  by (auto simp: create_def Let_def isUnindexedArgs_def isQuadIndexArgs_def isPointRadiusArgs_def
      isDefined_def dest: isInteger_isDefined)

lemma createQuadIndex_array:
  assumes "arg args 3 = JArray xs" "4 \<le> length xs"
  shows "createQuadIndex mem args s h p schema cb =
    (if IsNumber (xs ! 0) \<and> IsNumber (xs ! 1) \<and> IsNumber (xs ! 2) \<and> IsNumber (xs ! 3)
     then if num_ge (NumberValue (xs ! 2)) (NumberValue (xs ! 0)) \<and>
             num_ge (NumberValue (xs ! 3)) (NumberValue (xs ! 0))
          then built (newReadCommand mem s h p schema cb
                  (ReadCommandQuadIndex
                     (Some (NumberValue (xs ! 0), NumberValue (xs ! 1),
                            NumberValue (xs ! 2), NumberValue (xs ! 3)))
                     (Uint32Value (arg args 4)) (Uint32Value (arg args 5))))
          else Returns (errorCallback cb ''Invalid coords in query'', None)
     else Returns (errorCallback cb ''Invalid coord types in query'', None))"
proof -
  have g: "Get (JArray xs) 0 = xs ! 0" "Get (JArray xs) 1 = xs ! 1"
    "Get (JArray xs) 2 = xs ! 2" "Get (JArray xs) 3 = xs ! 3"
    using assms(2) by auto
  show ?thesis
    unfolding createQuadIndex_def Let_def assms(1) g by (simp add: isDefined_def)
qed

lemma Get_take4: "i < 4 \<Longrightarrow> Get (JArray (take 4 xs)) i = Get (JArray xs) i"
  by simp

lemma createQuadIndex_take4:
  assumes "arg args 3 = JArray xs"
  shows "createQuadIndex mem (args[3 := JArray (take 4 xs)]) s h p schema cb
       = createQuadIndex mem args s h p schema cb"
proof -
  have l: "3 < length args" using assms by (auto simp: arg_def split: if_splits)
  have a: "arg (args[3 := JArray (take 4 xs)]) 3 = JArray (take 4 xs)"
    using l by (simp add: arg_update_same)
  show ?thesis
    unfolding createQuadIndex_def Let_def a assms
    by (simp add: arg_update_other isDefined_def del: Get.simps add: Get_take4)
qed

text \<open>
  Claim C10.  Take a call of seven arguments that passes the checks of callback, host, port
  and schema and whose argument 3 is an array.  If the array has at least four elements
  (and arguments 4 and 5 are integers) the call is taken as a spatial read with a bounding
  box, and what it ends in is decided by the first four elements alone.  If one of them is
  no number: the error \<^verbatim>\<open>Invalid coord types in query\<close>.  If the check of the coordinates
  fails: the error \<^verbatim>\<open>Invalid coords in query\<close>.  Otherwise the constructor is called for a
  command whose box is made of these four numbers and whose depths are arguments 4 and 5:
  the call returns that command, or leaves with the \<^verbatim>\<open>std::bad_alloc\<close> of the constructor.
  The elements after the fourth are never read: the factory does the same for the array
  cut to four elements.  If the array has fewer than four elements the call ends in the
  error \<^verbatim>\<open>Could not identify 'read' from args\<close>, not in a coordinate error.
\<close>

theorem long_bbox_array_accepted_short_one_not_identified:
  assumes "length args = 7" "IsFunction (arg args 6)" "validHostPortSchema args"
    "arg args 3 = JArray xs"
  shows "(4 \<le> length xs \<and> isInteger (arg args 4) \<and> isInteger (arg args 5) \<longrightarrow>
            create mem args s =
              (if IsNumber (xs ! 0) \<and> IsNumber (xs ! 1) \<and> IsNumber (xs ! 2) \<and> IsNumber (xs ! 3)
               then if num_ge (NumberValue (xs ! 2)) (NumberValue (xs ! 0)) \<and>
                       num_ge (NumberValue (xs ! 3)) (NumberValue (xs ! 0))
                    then if mem (getStride (schemaOrDefault s (parseSchema (arg args 2)))
                                   * getNumPoints s)
                         then Returns ([], Some (commandWith s (Utf8Value (arg args 0))
                                 (Uint32Value (arg args 1)) (parseSchema (arg args 2)) (arg args 6)
                                 (ReadCommandQuadIndex
                                    (Some (NumberValue (xs ! 0), NumberValue (xs ! 1),
                                           NumberValue (xs ! 2), NumberValue (xs ! 3)))
                                    (Uint32Value (arg args 4)) (Uint32Value (arg args 5)))))
                         else ThrowsOther
                    else Returns (errorCallback (arg args 6) ''Invalid coords in query'', None)
               else Returns (errorCallback (arg args 6) ''Invalid coord types in query'', None)) \<and>
            create mem args s = create mem (args[3 := JArray (take 4 xs)]) s) \<and>
         (length xs < 4 \<longrightarrow>
            create mem args s
              = Returns (errorCallback (arg args 6) ''Could not identify 'read' from args'', None))"
proof (intro conjI impI)
  assume "length xs < 4"
  then show "create mem args s
      = Returns (errorCallback (arg args 6) ''Could not identify 'read' from args'', None)"
    by (simp add: create_seven_array [OF assms])
next
  assume h: "4 \<le> length xs \<and> isInteger (arg args 4) \<and> isInteger (arg args 5)"
  let ?args' = "args[3 := JArray (take 4 xs)]"
  have 1: "length ?args' = 7" using assms(1) by simp
  have 2: "IsFunction (arg ?args' 6)" using assms(2) by (simp add: arg_update_other)
  have 3: "validHostPortSchema ?args'"
    using assms(3) by (simp add: validHostPortSchema_def arg_update_other)
  have 4: "arg ?args' 3 = JArray (take 4 xs)" using assms(1) by (simp add: arg_update_same)
  have c: "create mem args s = createQuadIndex mem args s (Utf8Value (arg args 0))
      (Uint32Value (arg args 1)) (parseSchema (arg args 2)) (arg args 6)"
    using h by (simp add: create_seven_array [OF assms])
  have c': "create mem ?args' s = createQuadIndex mem ?args' s (Utf8Value (arg args 0))
      (Uint32Value (arg args 1)) (parseSchema (arg args 2)) (arg args 6)"
    using h by (simp add: create_seven_array [OF 1 2 3 4] arg_update_other)
  show "create mem args s = create mem ?args' s"
    by (simp add: c c' createQuadIndex_take4 [OF assms(4)])
  show "create mem args s =
      (if IsNumber (xs ! 0) \<and> IsNumber (xs ! 1) \<and> IsNumber (xs ! 2) \<and> IsNumber (xs ! 3)
       then if num_ge (NumberValue (xs ! 2)) (NumberValue (xs ! 0)) \<and>
               num_ge (NumberValue (xs ! 3)) (NumberValue (xs ! 0))
            then if mem (getStride (schemaOrDefault s (parseSchema (arg args 2)))
                           * getNumPoints s)
                 then Returns ([], Some (commandWith s (Utf8Value (arg args 0))
                         (Uint32Value (arg args 1)) (parseSchema (arg args 2)) (arg args 6)
                         (ReadCommandQuadIndex
                            (Some (NumberValue (xs ! 0), NumberValue (xs ! 1),
                                   NumberValue (xs ! 2), NumberValue (xs ! 3)))
                            (Uint32Value (arg args 4)) (Uint32Value (arg args 5)))))
                 else ThrowsOther
            else Returns (errorCallback (arg args 6) ''Invalid coords in query'', None)
       else Returns (errorCallback (arg args 6) ''Invalid coord types in query'', None))"
    using h by (simp add: c createQuadIndex_array [OF assms(4)] built_new)
qed

subsection \<open>Concrete calls of the factory\<close>

lemma sampleMemory_small: "sampleMemory 8" "sampleMemory 20" "sampleMemory 40" "sampleMemory 60"
  by (simp_all add: sampleMemory_def)

lemma sampleSession_sizes:
  "getStride (schemaOrDefault sampleSession []) = 8"
  "getStride (schemaOrDefault sampleSession
     [\<lparr> dim_name = ''X'', dim_type = ''floating'', dim_size = 4 \<rparr>]) = 4"
  "getNumPoints sampleSession = 5"
  by (simp_all add: schemaOrDefault_def getStride_def sampleSession_def)

lemma bboxArgs_shape:
  "length (bboxArgs b) = 7" "IsFunction (arg (bboxArgs b) 6)" "validHostPortSchema (bboxArgs b)"
  "arg (bboxArgs b) 3 = JArray b" "isInteger (arg (bboxArgs b) 4)" "isInteger (arg (bboxArgs b) 5)"
  "arg (bboxArgs b) 0 = JString ''h''" "Uint32Value (arg (bboxArgs b) 1) = 80"
  "parseSchema (arg (bboxArgs b) 2) = []" "arg (bboxArgs b) 6 = JFunction 0"
  "Uint32Value (arg (bboxArgs b) 4) = 0" "Uint32Value (arg (bboxArgs b) 5) = 1"
  "Uint32Value (arg (bboxArgs b) (Suc 0)) = 80"
  by (simp_all add: bboxArgs_def arg_def validHostPortSchema_def isDefined_def isInteger_def
      parseSchema_def)

lemma create_bboxArgs:
  "4 \<le> length b \<Longrightarrow>
   create mem (bboxArgs b) s = createQuadIndex mem (bboxArgs b) s ''h'' 80 [] (JFunction 0)"
  by (simp add: create_seven_array [OF bboxArgs_shape(1-4)] bboxArgs_shape)

lemma rangeArgs_shape:
  "length (rangeArgs a b) = 6" "IsFunction (arg (rangeArgs a b) 5)" "validHostPortSchema (rangeArgs a b)"
  "arg (rangeArgs a b) 0 = JString ''h''" "Uint32Value (arg (rangeArgs a b) 1) = 80"
  "parseSchema (arg (rangeArgs a b) 2) = [\<lparr> dim_name = ''X'', dim_type = ''floating'', dim_size = 4 \<rparr>]"
  "arg (rangeArgs a b) 5 = JFunction 0" "arg (rangeArgs a b) 3 = JNumber (Fin a)"
   "arg (rangeArgs a b) 4 = JNumber (Fin b)" "Uint32Value (arg (rangeArgs a b) (Suc 0)) = 80"
  by (simp_all add: rangeArgs_def arg_def validHostPortSchema_def isDefined_def isInteger_def
      parseSchema_def strtoul_def isspace_def digit_val_def)

lemma create_range_0_1:
  "create sampleMemory (rangeArgs 0 1) sampleSession
     = Returns ([], Some (commandWith sampleSession ''h'' 80
         [\<lparr> dim_name = ''X'', dim_type = ''floating'', dim_size = 4 \<rparr>] (JFunction 0)
         (ReadCommandUnindexed 0 1)))"
  by (simp add: create_def rangeArgs_shape Let_def isUnindexedArgs_def createUnindexed_def
     isDefined_def isInteger_def built_new sampleSession_sizes sampleMemory_small)

theorem buffer_allocated_by_constructor_witness:
  "create sampleMemory (rangeArgs 0 1) sampleSession
     = Returns ([], Some (commandWith sampleSession ''h'' 80
         [\<lparr> dim_name = ''X'', dim_type = ''floating'', dim_size = 4 \<rparr>] (JFunction 0)
         (ReadCommandUnindexed 0 1))) \<and>
   m_data (commandWith sampleSession ''h'' 80
         [\<lparr> dim_name = ''X'', dim_type = ''floating'', dim_size = 4 \<rparr>] (JFunction 0)
         (ReadCommandUnindexed 0 1)) = Some 20"
proof -
  have s: "getStride (schemaOrDefault sampleSession (parseSchema (arg (rangeArgs 0 1) 2)))
      * getNumPoints sampleSession = 20"
    by (simp add: rangeArgs_shape sampleSession_sizes)
  from buffer_allocated_by_constructor [OF create_range_0_1] s
  show ?thesis by (simp add: create_range_0_1)
qed

theorem long_bbox_array_accepted_short_one_not_identified_witness:
  "create sampleMemory
     (bboxArgs [JNumber (Fin 1), JNumber (Fin 2), JNumber (Fin 5), JNumber (Fin 7), JString ''extra''])
     sampleSession
     = Returns ([], Some (commandWith sampleSession ''h'' 80 [] (JFunction 0)
         (ReadCommandQuadIndex (Some (Fin 1, Fin 2, Fin 5, Fin 7)) 0 1))) \<and>
   create sampleMemory
     (bboxArgs [JNumber (Fin 1), JNumber (Fin 2), JString ''5'', JNumber (Fin 7), JNumber (Fin 9)])
     sampleSession
     = Returns (errorCallback (JFunction 0) ''Invalid coord types in query'', None) \<and>
   create sampleMemory (bboxArgs [JNumber (Fin 1), JNumber (Fin 2), JNumber (Fin 5)]) sampleSession
     = Returns (errorCallback (JFunction 0) ''Could not identify 'read' from args'', None) \<and>
   create (\<lambda>n. False)
     (bboxArgs [JNumber (Fin 1), JNumber (Fin 2), JNumber (Fin 5), JNumber (Fin 7), JString ''extra''])
     sampleSession
     = ThrowsOther"
proof -
  let ?five = "[JNumber (Fin 1), JNumber (Fin 2), JNumber (Fin 5), JNumber (Fin 7), JString ''extra'']"
  let ?bad = "[JNumber (Fin 1), JNumber (Fin 2), JString ''5'', JNumber (Fin 7), JNumber (Fin 9)]"
  let ?three = "[JNumber (Fin 1), JNumber (Fin 2), JNumber (Fin 5)]"
  note t = long_bbox_array_accepted_short_one_not_identified [OF bboxArgs_shape(1-4)]
  have 1: "create sampleMemory (bboxArgs ?five) sampleSession
     = Returns ([], Some (commandWith sampleSession ''h'' 80 [] (JFunction 0)
         (ReadCommandQuadIndex (Some (Fin 1, Fin 2, Fin 5, Fin 7)) 0 1)))"
    using t [of ?five sampleMemory sampleSession]
    by (simp add: bboxArgs_shape sampleSession_sizes sampleMemory_small num_ge_def)
  have 2: "create sampleMemory (bboxArgs ?bad) sampleSession
     = Returns (errorCallback (JFunction 0) ''Invalid coord types in query'', None)"
    using t [of ?bad sampleMemory sampleSession] by (simp add: bboxArgs_shape)
  have 3: "create sampleMemory (bboxArgs ?three) sampleSession
     = Returns (errorCallback (JFunction 0) ''Could not identify 'read' from args'', None)"
    using t [of ?three sampleMemory sampleSession] by (simp add: bboxArgs_shape)
  have 4: "create (\<lambda>n. False) (bboxArgs ?five) sampleSession = ThrowsOther"
    using t [of ?five "\<lambda>n. False" sampleSession]
    by (simp add: bboxArgs_shape num_ge_def)
  show ?thesis using 1 2 3 4 by blast
qed

lemma describedArgs_shape:
  "length (describedArgs ds) = 6" "validHostPortSchema (describedArgs ds)"
  "isUnindexedArgs (describedArgs ds)"
  "arg (describedArgs ds) 0 = JString ''h''" "Uint32Value (arg (describedArgs ds) 1) = 80"
  "arg (describedArgs ds) 2 = JObject (Some ds)"
  "arg (describedArgs ds) 5 = JFunction 0" "Uint32Value (arg (describedArgs ds) 3) = 0"
  "Uint32Value (arg (describedArgs ds) 4) = 3" "Uint32Value (arg (describedArgs ds) (Suc 0)) = 80"
  "(describedArgs ds)[2 := JObject (Some es)] = describedArgs es"
  by (simp_all add: describedArgs_def arg_def validHostPortSchema_def isUnindexedArgs_def
      isDefined_def isInteger_def)

lemma create_describedArgs:
  "create mem (describedArgs ds) sampleSession
     = built (newReadCommand mem sampleSession ''h'' 80 (parseSchema (JObject (Some ds)))
         (JFunction 0) (ReadCommandUnindexed 0 3))"
  by (simp add: create_def describedArgs_shape Let_def createUnindexed_def sampleSession_sizes)

lemma sampleDims_kept:
  "map toRequest (filter kept sampleDims)
     = [\<lparr> dim_name = ''X'', dim_type = ''floating'', dim_size = 4 \<rparr>,
        \<lparr> dim_name = ''Intensity'', dim_type = ''unsigned'', dim_size = 16 \<rparr>]"
  by (simp add: sampleDims_def kept_def toRequest_def strtoul_def isspace_def digit_val_def)

theorem kept_dimensions_or_native_schema_witness:
  "create sampleMemory (describedArgs sampleDims) sampleSession
     = Returns ([], Some (commandWith sampleSession ''h'' 80
         [\<lparr> dim_name = ''X'', dim_type = ''floating'', dim_size = 4 \<rparr>,
          \<lparr> dim_name = ''Intensity'', dim_type = ''unsigned'', dim_size = 16 \<rparr>]
         (JFunction 0) (ReadCommandUnindexed 0 3))) \<and>
   m_schema (commandWith sampleSession ''h'' 80
         [\<lparr> dim_name = ''X'', dim_type = ''floating'', dim_size = 4 \<rparr>,
          \<lparr> dim_name = ''Intensity'', dim_type = ''unsigned'', dim_size = 16 \<rparr>]
         (JFunction 0) (ReadCommandUnindexed 0 3))
     = [\<lparr> dim_name = ''X'', dim_type = ''floating'', dim_size = 4 \<rparr>,
        \<lparr> dim_name = ''Intensity'', dim_type = ''unsigned'', dim_size = 16 \<rparr>] \<and>
   m_stride (commandWith sampleSession ''h'' 80
         [\<lparr> dim_name = ''X'', dim_type = ''floating'', dim_size = 4 \<rparr>,
          \<lparr> dim_name = ''Intensity'', dim_type = ''unsigned'', dim_size = 16 \<rparr>]
         (JFunction 0) (ReadCommandUnindexed 0 3)) = 20"
proof -
  let ?sch = "[\<lparr> dim_name = ''X'', dim_type = ''floating'', dim_size = 4 \<rparr>,
          \<lparr> dim_name = ''Intensity'', dim_type = ''unsigned'', dim_size = 16 \<rparr>]"
  let ?c = "commandWith sampleSession ''h'' 80 ?sch (JFunction 0) (ReadCommandUnindexed 0 3)"
  have g: "getStride (schemaOrDefault sampleSession ?sch) * getNumPoints sampleSession = 100"
    by (simp add: schemaOrDefault_def getStride_def sampleSession_def)
  have r: "create sampleMemory (describedArgs sampleDims) sampleSession = Returns ([], Some ?c)"
    by (simp add: create_describedArgs parseSchema_filter sampleDims_kept built_new g
        sampleMemory_def)
  have k: "filter kept sampleDims \<noteq> []"
    using sampleDims_kept by auto
  have t: "(\<Sum>d\<leftarrow>filter kept sampleDims. strtoul (size_str d)) = 20"
    by (simp add: sampleDims_def kept_def strtoul_def isspace_def digit_val_def)
  from kept_dimensions_or_native_schema
         [of sampleDims sampleMemory "describedArgs []" sampleSession]
  have "\<forall>evs c. create sampleMemory (describedArgs sampleDims) sampleSession = Returns (evs, Some c) \<longrightarrow>
      evs = [] \<and>
      (filter kept sampleDims \<noteq> [] \<longrightarrow>
         m_schema c = map toRequest (filter kept sampleDims) \<and>
         m_stride c = sum_list (map (\<lambda>d. strtoul (size_str d)) (filter kept sampleDims)))"
    by (simp add: describedArgs_shape)
  then have "m_schema ?c = map toRequest (filter kept sampleDims) \<and>
      m_stride ?c = sum_list (map (\<lambda>d. strtoul (size_str d)) (filter kept sampleDims))"
    using r k by blast
  then show ?thesis using r unfolding sampleDims_kept t by blast
qed

text \<open>
  Against C8 as stated: for the descriptor whose only entry is the dimension \<open>X\<close> with the
  size string \<open>0\<close>, the command the factory returns on the sample session has the native
  \<open>X\<close> of 8 bytes in its resolved schema, and a stride of 8.
\<close>

theorem zero_size_dimension_back_in_resolved_schema:
  "create sampleMemory
     (describedArgs [\<lparr> name_str = ''X'', type_str = ''floating'', size_str = ''0'' \<rparr>])
     sampleSession
     = Returns ([], Some (commandWith sampleSession ''h'' 80 [] (JFunction 0)
         (ReadCommandUnindexed 0 3))) \<and>
   m_schema (commandWith sampleSession ''h'' 80 [] (JFunction 0) (ReadCommandUnindexed 0 3))
     = [\<lparr> dim_name = ''X'', dim_type = ''floating'', dim_size = 8 \<rparr>] \<and>
   m_stride (commandWith sampleSession ''h'' 80 [] (JFunction 0) (ReadCommandUnindexed 0 3)) = 8"
proof -
  have p: "parseSchema (JObject (Some [\<lparr> name_str = ''X'', type_str = ''floating'', size_str = ''0'' \<rparr>]))
      = []"
    by (simp add: parseSchema_filter kept_def strtoul_def isspace_def digit_val_def)
  have 1: "create sampleMemory
     (describedArgs [\<lparr> name_str = ''X'', type_str = ''floating'', size_str = ''0'' \<rparr>])
     sampleSession
     = Returns ([], Some (commandWith sampleSession ''h'' 80 [] (JFunction 0)
         (ReadCommandUnindexed 0 3)))"
    by (simp add: create_describedArgs p built_new sampleSession_sizes sampleMemory_small)
  have 2: "m_schema (commandWith sampleSession ''h'' 80 [] (JFunction 0) (ReadCommandUnindexed 0 3))
     = [\<lparr> dim_name = ''X'', dim_type = ''floating'', dim_size = 8 \<rparr>]"
    by (simp add: commandWith_def schemaOrDefault_def sampleSession_def)
  have 3: "m_stride (commandWith sampleSession ''h'' 80 [] (JFunction 0) (ReadCommandUnindexed 0 3))
      = 8"
    by (simp add: commandWith_def sampleSession_sizes)
  show ?thesis using 1 2 3 by blast
qed

subsection \<open>The check of the bounding box\<close>

text \<open>What the factory does with a bounding box of four numbers, in general.\<close>

lemma bbox_check_of_the_code:
  assumes "length args = 7" "IsFunction (arg args 6)" "validHostPortSchema args"
    "arg args 3 = JArray [JNumber xMin, JNumber yMin, JNumber xMax, JNumber yMax]"
    "isInteger (arg args 4)" "isInteger (arg args 5)"
  shows "create mem args s =
    (if num_ge xMax xMin \<and> num_ge yMax xMin
     then built (newReadCommand mem s (Utf8Value (arg args 0)) (Uint32Value (arg args 1))
            (parseSchema (arg args 2)) (arg args 6)
            (ReadCommandQuadIndex (Some (xMin, yMin, xMax, yMax))
               (Uint32Value (arg args 4)) (Uint32Value (arg args 5))))
     else Returns (errorCallback (arg args 6) ''Invalid coords in query'', None))"
  using assms(5,6)
  by (simp add: create_seven_array [OF assms(1-4)] createQuadIndex_array [OF assms(4)])

text \<open>
  Claim C1 says that a spatial read with a numeric bounding box is built exactly when
  \<open>xMax \<ge> xMin\<close> and \<open>yMax \<ge> yMin\<close>, and ends in the coordinate error otherwise.  The
  factory compares \<open>yMax\<close> with \<open>xMin\<close> instead.  For the box
  \<open>[xMin, yMin, xMax, yMax] = [0, 10, 5, 5]\<close>, whose \<open>yMax\<close> is below its \<open>yMin\<close>, it
  reports nothing and constructs the command, which it returns whenever the buffer of the
  command can be allocated; for the box \<open>[10, 0, 20, 5]\<close>, which satisfies both conditions
  of the claim, it reports \<^verbatim>\<open>Invalid coords in query\<close> and builds nothing.  Both hold for
  every session and every memory.
\<close>

theorem bbox_yMax_compared_with_xMin:
  "create mem (bboxArgs [JNumber (Fin 0), JNumber (Fin 10), JNumber (Fin 5), JNumber (Fin 5)]) s
     = (if mem (getStride (schemaOrDefault s []) * getNumPoints s)
        then Returns ([], Some (commandWith s ''h'' 80 [] (JFunction 0)
               (ReadCommandQuadIndex (Some (Fin 0, Fin 10, Fin 5, Fin 5)) 0 1)))
        else ThrowsOther) \<and>
   create mem (bboxArgs [JNumber (Fin 10), JNumber (Fin 0), JNumber (Fin 20), JNumber (Fin 5)]) s
     = Returns (errorCallback (JFunction 0) ''Invalid coords in query'', None)"
  by (simp add: create_bboxArgs createQuadIndex_array [OF bboxArgs_shape(4)] bboxArgs_shape
      num_ge_def built_new)

theorem bbox_yMax_compared_with_xMin_witness:
  "create sampleMemory
          [JString ''h'', JNumber (Fin 80), JObject None,
           JArray [JNumber (Fin 0), JNumber (Fin 10), JNumber (Fin 5), JNumber (Fin 5)],
           JNumber (Fin 0), JNumber (Fin 1), JFunction 0] sampleSession
     = Returns ([], Some (commandWith sampleSession ''h'' 80 [] (JFunction 0)
         (ReadCommandQuadIndex (Some (Fin 0, Fin 10, Fin 5, Fin 5)) 0 1)))"
  using bbox_yMax_compared_with_xMin [of sampleMemory sampleSession]
  by (simp add: bboxArgs_def sampleSession_sizes sampleMemory_small)

subsection \<open>Point count and byte count\<close>

lemma counts_agree_setNumPoints:
  "m_stride c = getStride (m_schema c) \<Longrightarrow> counts_agree (setNumPoints n c)"
  by (simp add: counts_agree_def setNumPoints_def)

lemma run_keeps_schema:
  "m_stride (snd (run net c)) = m_stride c \<and> m_schema (snd (run net c)) = m_schema c"
  by (simp add: run_def setNumPoints_def Let_def split: prod.splits outcome.splits)

lemma run_counts:
  "(\<exists>d n. readQuery (m_query c) c = (d, Returns n) \<and>
          m_numPoints (snd (run net c)) = n \<and> m_numBytes (snd (run net c)) = n * m_stride c) \<or>
   (m_numPoints (snd (run net c)) = m_numPoints c \<and> m_numBytes (snd (run net c)) = m_numBytes c)"
  by (cases "readQuery (m_query c) c")
     (simp add: run_def setNumPoints_def Let_def split: prod.splits outcome.splits)

lemma counts_agree_run: "counts_agree c \<Longrightarrow> counts_agree (snd (run net c))"
  using run_counts [of c net] run_keeps_schema [of net c] by (auto simp: counts_agree_def)

lemma counts_agree_after_call: "counts_agree c \<Longrightarrow> counts_agree (after_call c k)"
proof (cases k)
  case (Run net)
  assume "counts_agree c"
  then show ?thesis using Run by (simp add: counts_agree_run)
next
  case (TransmitCall net i offset len)
  assume "counts_agree c"
  then show ?thesis using TransmitCall by simp
next
  case (SetNumPoints n)
  assume "counts_agree c"
  then have "m_stride c = getStride (m_schema c)" by (simp add: counts_agree_def)
  then show ?thesis using SetNumPoints by (simp add: counts_agree_setNumPoints)
qed

lemma counts_agree_foldl: "counts_agree c \<Longrightarrow> counts_agree (foldl after_call c ks)"
  by (induction ks arbitrary: c) (simp_all add: counts_agree_after_call)

lemma run_sets_counts:
  assumes "readQuery (m_query c) c = (d, Returns n)"
  shows "m_numPoints (snd (run net c)) = n \<and> m_numBytes (snd (run net c)) = n * m_stride c"
  using assms by (simp add: run_def setNumPoints_def Let_def split: prod.splits outcome.splits)

lemma readWork_sets_counts:
  assumes "readLegacy (pdalSession rd) (data rd) (start rd) (count rd) = (d, Returns n)"
  shows "numPoints (readWork net rd) = n \<and>
         numBytes (readWork net rd) = n * sessionStride (pdalSession rd)"
  using assms by (simp add: readWork_def Let_def split: outcome.splits)

lemma unat_product:
  "unat (a::size_t) * unat b < 2 ^ 64 \<Longrightarrow> unat (a * b) = unat a * unat b"
  using unat_mult_lem [of a b] by simp

text \<open>
  Claim C4.  Take a command built by the factory and any sequence of calls of \<^verbatim>\<open>run\<close>,
  \<^verbatim>\<open>transmit\<close> and \<^verbatim>\<open>setNumPoints\<close> on it, whatever the session reads and whatever is thrown.
  In the command \<open>c\<close> reached, \<open>m_numBytes = m_numPoints * m_stride\<close> in \<^verbatim>\<open>std::size_t\<close>
  arithmetic, with \<open>m_stride\<close> the sum of the sizes of the dimensions of the schema; when
  the product of the two numbers is below \<open>2 ^ 64\<close> the equation holds between the numbers
  themselves.  A \<^verbatim>\<open>run\<close> whose read returns \<open>n\<close> points sets the point count to \<open>n\<close> and the
  byte count to \<open>n\<close> times that sum.  In \<^verbatim>\<open>PdalBindings::read\<close> the work of the read request
  sets \<open>numPoints\<close> to the count the session returns and \<open>numBytes\<close> to that count times the
  stride of the session; the later tasks write neither.
\<close>

theorem numBytes_is_numPoints_times_stride:
  assumes "create mem args s = Returns (evs, Some c0)"
  shows "(\<forall>rd d n. readLegacy (pdalSession rd) (data rd) (start rd) (count rd) = (d, Returns n) \<longrightarrow>
            numPoints (readWork net rd) = n \<and>
            numBytes (readWork net rd) = n * sessionStride (pdalSession rd)) \<and>
         (let c = foldl after_call c0 calls in
            m_numBytes c = m_numPoints c * m_stride c \<and>
            m_stride c = sum_list (map dim_size (m_schema c)) \<and>
            (unat (m_numPoints c) * unat (m_stride c) < 2 ^ 64 \<longrightarrow>
               unat (m_numBytes c) = unat (m_numPoints c) * unat (m_stride c)) \<and>
            (\<forall>d n. readQuery (m_query c) c = (d, Returns n) \<longrightarrow>
               m_numPoints (snd (run net c)) = n \<and>
               m_numBytes (snd (run net c)) = n * sum_list (map dim_size (m_schema c))))"
proof -
  have "counts_agree c0"
    using create_fresh [OF assms] by (simp add: counts_agree_def fresh_def)
  then have a: "counts_agree (foldl after_call c0 calls)" by (rule counts_agree_foldl)
  have b: "\<forall>rd d n. readLegacy (pdalSession rd) (data rd) (start rd) (count rd) = (d, Returns n) \<longrightarrow>
            numPoints (readWork net rd) = n \<and>
            numBytes (readWork net rd) = n * sessionStride (pdalSession rd)"
    using readWork_sets_counts by blast
  have c: "let c = foldl after_call c0 calls in
            m_numBytes c = m_numPoints c * m_stride c \<and>
            m_stride c = sum_list (map dim_size (m_schema c)) \<and>
            (unat (m_numPoints c) * unat (m_stride c) < 2 ^ 64 \<longrightarrow>
               unat (m_numBytes c) = unat (m_numPoints c) * unat (m_stride c)) \<and>
            (\<forall>d n. readQuery (m_query c) c = (d, Returns n) \<longrightarrow>
               m_numPoints (snd (run net c)) = n \<and>
               m_numBytes (snd (run net c)) = n * sum_list (map dim_size (m_schema c)))"
    unfolding Let_def using a run_sets_counts [of "foldl after_call c0 calls"]
    by (auto simp: counts_agree_def getStride_sum unat_product)
  show ?thesis using b c by blast
qed

lemma create_range_0_3:
  "create sampleMemory (rangeArgs 0 3) sampleSession
     = Returns ([], Some (commandWith sampleSession ''h'' 80
         [\<lparr> dim_name = ''X'', dim_type = ''floating'', dim_size = 4 \<rparr>] (JFunction 0)
         (ReadCommandUnindexed 0 3)))"
  by (simp add: create_def rangeArgs_shape Let_def isUnindexedArgs_def createUnindexed_def
     isDefined_def isInteger_def built_new sampleSession_sizes sampleMemory_small)

theorem numBytes_is_numPoints_times_stride_witness:
  "create sampleMemory (rangeArgs 0 3) sampleSession
     = Returns ([], Some (commandWith sampleSession ''h'' 80
         [\<lparr> dim_name = ''X'', dim_type = ''floating'', dim_size = 4 \<rparr>] (JFunction 0)
         (ReadCommandUnindexed 0 3))) \<and>
   m_numPoints (snd (run sampleNetwork (commandWith sampleSession ''h'' 80
         [\<lparr> dim_name = ''X'', dim_type = ''floating'', dim_size = 4 \<rparr>] (JFunction 0)
         (ReadCommandUnindexed 0 3)))) = 3 \<and>
   m_numBytes (snd (run sampleNetwork (commandWith sampleSession ''h'' 80
         [\<lparr> dim_name = ''X'', dim_type = ''floating'', dim_size = 4 \<rparr>] (JFunction 0)
         (ReadCommandUnindexed 0 3)))) = 12"
proof -
  let ?c = "commandWith sampleSession ''h'' 80
         [\<lparr> dim_name = ''X'', dim_type = ''floating'', dim_size = 4 \<rparr>] (JFunction 0)
         (ReadCommandUnindexed 0 3)"
  have q: "readQuery (m_query ?c) ?c = (Some 20, Returns 3)"
    by (simp add: commandWith_def schemaOrDefault_def getStride_def sampleSession_def Let_def)
  have s: "sum_list (map dim_size (m_schema ?c)) = 4"
    by (simp add: commandWith_def schemaOrDefault_def Let_def)
  from numBytes_is_numPoints_times_stride [OF create_range_0_3, of sampleNetwork "[]"]
  have "\<forall>d n. readQuery (m_query ?c) ?c = (d, Returns n) \<longrightarrow>
               m_numPoints (snd (run sampleNetwork ?c)) = n \<and>
               m_numBytes (snd (run sampleNetwork ?c)) = n * sum_list (map dim_size (m_schema ?c))"
    by (simp add: Let_def)
  then have "m_numPoints (snd (run sampleNetwork ?c)) = 3 \<and>
             m_numBytes (snd (run sampleNetwork ?c)) = 3 * sum_list (map dim_size (m_schema ?c))"
    using q by blast
  then show ?thesis unfolding s by (simp add: create_range_0_3)
qed

subsection \<open>The loop of the transmission\<close>

lemma unat_of_nat_small: "off < 2 ^ 64 \<Longrightarrow> unat (of_nat off :: size_t) = off"
  by (simp add: unat_of_nat)

lemma unat_size_t_bound: "unat (nb :: size_t) < 2 ^ 64"
  using unsigned_less [of nb, where 'a = nat] by simp

lemma word_of_nat_less:
  "off < 2 ^ 64 \<Longrightarrow> ((of_nat off :: size_t) < nb) = (off < unat nb)"
  by (simp add: word_less_nat_alt unat_of_nat_small)

lemma word_chunk_len:
  assumes "off < unat (nb :: size_t)"
  shows "min chunkSize (nb - of_nat off) = of_nat (min 65536 (unat nb - off))"
proof -
  have o: "off < 2 ^ 64" using assms unat_size_t_bound [of nb] by simp
  have le: "(of_nat off :: size_t) \<le> nb"
    using assms o by (simp add: word_le_nat_alt unat_of_nat_small)
  have u: "unat (nb - of_nat off) = unat nb - off"
    using le o by (simp add: unat_sub unat_of_nat_small)
  have c: "unat chunkSize = 65536" by (simp add: chunkSize_def)
  have "unat (min chunkSize (nb - of_nat off)) = min 65536 (unat nb - off)"
    by (simp add: min_def word_le_nat_alt u c)
  moreover have "unat (of_nat (min 65536 (unat nb - off)) :: size_t) = min 65536 (unat nb - off)"
    using o by (intro unat_of_nat_small) simp
  ultimately show ?thesis by (simp add: word_unat_eq_iff)
qed

lemma word_next_offset: "(of_nat off :: size_t) + chunkSize = of_nat (off + 65536)"
  by (simp add: chunkSize_def)

lemma sendLoop_runs:
  assumes bt: "bufferTransmitter rd = Some bt"
  shows "N = unat (numBytes rd) \<Longrightarrow> N + 65536 \<le> 2 ^ 64 \<Longrightarrow> off < 2 ^ 64 \<Longrightarrow>
     length (chunksFrom off N) < fuel \<Longrightarrow>
     \<exists>evs r m. sendLoop fuel net cs rd i (of_nat off) = Some (evs, r) \<and> r \<noteq> Crashed \<and>
        evs = take m (map toTransmit (chunksFrom off N)) \<and>
        (\<forall>k\<ge>i. cs k \<longrightarrow> length evs \<le> k - i)"
proof (induction off N arbitrary: fuel i rule: chunksFrom.induct)
  case (1 off n)
  from "1.prems"(4) obtain f where fuel: "fuel = Suc f" by (cases fuel) auto
  show ?case
  proof (cases "off < n")
    case False
    then have "\<not> (of_nat off :: size_t) < numBytes rd"
      using "1.prems"(1,3) by (simp add: word_of_nat_less)
    then show ?thesis by (simp add: fuel)
  next
    case True
    then have lt: "(of_nat off :: size_t) < numBytes rd"
      using "1.prems"(1,3) by (simp add: word_of_nat_less)
    have len: "min chunkSize (numBytes rd - of_nat off) = of_nat (min 65536 (n - off))"
      using True "1.prems"(1) by (simp add: word_chunk_len)
    have cf: "chunksFrom off n = (off, min 65536 (n - off)) # chunksFrom (off + 65536) n"
      using True by (subst chunksFrom.simps) simp
    show ?thesis
    proof (cases "cs i")
      case True
      then show ?thesis using lt by (simp add: fuel)
    next
      case nc: False
      show ?thesis
      proof (cases "transmitFails net i (of_nat off) (of_nat (min 65536 (n - off)))")
        case True
        have "sendLoop fuel net cs rd i (of_nat off)
            = Some ([Transmit (of_nat off) (of_nat (min 65536 (n - off)))], Caught)"
          using lt nc True bt len by (simp add: fuel Let_def)
        moreover have "[Transmit (of_nat off) (of_nat (min 65536 (n - off)))]
            = take 1 (map toTransmit (chunksFrom off n))"
          by (simp add: cf toTransmit_def)
        moreover have "\<forall>k\<ge>i. cs k \<longrightarrow> length [Transmit (of_nat off) (of_nat (min 65536 (n - off)))] \<le> k - i"
        proof (intro allI impI)
          fix k assume "i \<le> k" "cs k"
          then have "k \<noteq> i" using nc by auto
          then show "length [Transmit (of_nat off) (of_nat (min 65536 (n - off)))] \<le> k - i"
            using \<open>i \<le> k\<close> by simp
        qed
        ultimately show ?thesis by blast
      next
        case False
        have p3: "off + 65536 < 2 ^ 64" using \<open>off < n\<close> "1.prems"(2) by simp
        have p4: "length (chunksFrom (off + 65536) n) < f"
          using "1.prems"(4) by (simp add: cf fuel)
        from "1.IH" [OF \<open>off < n\<close> "1.prems"(1,2) p3 p4, of "Suc i"]
        obtain evs r m where
          rec: "sendLoop f net cs rd (Suc i) (of_nat (off + 65536)) = Some (evs, r)"
          and r: "r \<noteq> Crashed"
          and evs: "evs = take m (map toTransmit (chunksFrom (off + 65536) n))"
          and cn: "\<forall>k\<ge>Suc i. cs k \<longrightarrow> length evs \<le> k - Suc i"
          by blast
        have "sendLoop fuel net cs rd i (of_nat off)
            = Some (Transmit (of_nat off) (of_nat (min 65536 (n - off))) # evs, r)"
          using lt nc False bt len rec by (simp add: fuel Let_def word_next_offset)
        moreover have "Transmit (of_nat off) (of_nat (min 65536 (n - off))) # evs
            = take (Suc m) (map toTransmit (chunksFrom off n))"
          by (simp add: cf toTransmit_def evs)
        moreover have "\<forall>k\<ge>i. cs k \<longrightarrow>
            length (Transmit (of_nat off) (of_nat (min 65536 (n - off))) # evs) \<le> k - i"
        proof (intro allI impI)
          fix k assume k: "i \<le> k" "cs k"
          then have "k \<noteq> i" using nc by auto
          then have "Suc i \<le> k" using k by simp
          then have "length evs \<le> k - Suc i" using cn k by blast
          then show "length (Transmit (of_nat off) (of_nat (min 65536 (n - off))) # evs) \<le> k - i"
            using \<open>Suc i \<le> k\<close> by simp
        qed
        ultimately show ?thesis using r by blast
      qed
    qed
  qed
qed

subsection \<open>The chunks of the loop are the chunks of the plan\<close>

lemma covers_chunksFrom: "off \<le> n \<Longrightarrow> covers off n (chunksFrom off n)"
proof (induction off n rule: chunksFrom.induct)
  case (1 off n)
  show ?case
  proof (cases "off < n")
    case False
    then show ?thesis using "1.prems" by (subst chunksFrom.simps) simp
  next
    case True
    show ?thesis
    proof (cases "off + 65536 \<le> n")
      case le: True
      then have "covers (off + 65536) n (chunksFrom (off + 65536) n)"
        using "1.IH" True by simp
      moreover have "min 65536 (n - off) = 65536" using le by simp
      ultimately show ?thesis using True by (subst chunksFrom.simps) simp
    next
      case gt: False
      then have e: "chunksFrom (off + 65536) n = []" by (subst chunksFrom.simps) simp
      have "min 65536 (n - off) = n - off" using gt by simp
      then show ?thesis using True e by (subst chunksFrom.simps) simp
    qed
  qed
qed

lemma sum_chunksFrom: "off \<le> n \<Longrightarrow> sum_list (map snd (chunksFrom off n)) = n - off"
proof (induction off n rule: chunksFrom.induct)
  case (1 off n)
  show ?case
  proof (cases "off < n")
    case False
    then show ?thesis using "1.prems" by (subst chunksFrom.simps) simp
  next
    case True
    show ?thesis
    proof (cases "off + 65536 \<le> n")
      case le: True
      then have "sum_list (map snd (chunksFrom (off + 65536) n)) = n - (off + 65536)"
        using "1.IH" True by simp
      moreover have "min 65536 (n - off) = 65536" using le by simp
      ultimately show ?thesis using True le by (subst chunksFrom.simps) simp
    next
      case gt: False
      then have e: "chunksFrom (off + 65536) n = []" by (subst chunksFrom.simps) simp
      have "min 65536 (n - off) = n - off" using gt by simp
      then show ?thesis using True e by (subst chunksFrom.simps) simp
    qed
  qed
qed

lemma chunk_sizes_bounded: "c \<in> set (chunksFrom off n) \<Longrightarrow> snd c \<le> 65536"
proof (induction off n rule: chunksFrom.induct)
  case (1 off n)
  show ?case
  proof (cases "off < n")
    case False
    then show ?thesis using "1.prems" by (subst (asm) chunksFrom.simps) simp
  next
    case True
    from "1.prems" have "c = (off, min 65536 (n - off)) \<or> c \<in> set (chunksFrom (off + 65536) n)"
      using True by (subst (asm) chunksFrom.simps) simp
    then show ?thesis using "1.IH" True by auto
  qed
qed

lemma q_mult_le: "0 < (n::nat) \<Longrightarrow> (n - 1) div K * K \<le> n - 1"
  by simp

lemma below_q: "0 < (n::nat) \<Longrightarrow> i \<le> (n - 1) div K \<Longrightarrow> i * K < n"
proof -
  assume a: "0 < n" "i \<le> (n - 1) div K"
  then have "i * K \<le> (n - 1) div K * K" by simp
  also have "\<dots> \<le> n - 1" by simp
  finally show ?thesis using a by simp
qed

lemma full_chunk: "0 < (n::nat) \<Longrightarrow> i < (n - 1) div K \<Longrightarrow> i * K + K < n"
  using below_q [of n "Suc i" K] by simp

lemma last_chunk_end: "0 < (n::nat) \<Longrightarrow> 0 < K \<Longrightarrow> n \<le> (n - 1) div K * K + K"
proof -
  assume a: "0 < n" "0 < K"
  have "n - 1 = (n - 1) div K * K + (n - 1) mod K" by simp
  moreover have "(n - 1) mod K < K" using a by simp
  ultimately show ?thesis using a by linarith
qed

lemma last_chunk_len:
  assumes "0 < (n::nat)" "0 < K"
  shows "n - (n - 1) div K * K = (if n mod K = 0 then K else n mod K)"
proof -
  define q r where "q = (n - 1) div K" and "r = (n - 1) mod K"
  have e: "n - 1 = q * K + r" by (simp add: q_def r_def)
  have r: "r < K" using assms by (simp add: r_def)
  have n: "n = q * K + (r + 1)" using e assms by linarith
  show ?thesis
  proof (cases "r + 1 = K")
    case True
    have nk: "n = q * K + K" by (subst n) (simp only: True)
    have "(q * K + K) mod K = 0" by simp
    then have z: "n mod K = 0" using nk by simp
    have "n - q * K = K" by (subst nk) simp
    then show ?thesis using z by (simp add: q_def)
  next
    case False
    then have "r + 1 < K" using r by simp
    have "(q * K + (r + 1)) mod K = r + 1" using \<open>r + 1 < K\<close> by simp
    then have z: "n mod K = r + 1" using n by simp
    have "n - q * K = r + 1" by (subst n) simp
    then show ?thesis using z by (simp add: q_def)
  qed
qed

lemma chunksFrom_multiple:
  assumes "0 < n"
  shows "i \<le> (n - 1) div 65536 \<Longrightarrow> chunksFrom (i * 65536) n =
     map (\<lambda>j. (j * 65536, 65536)) [i ..< (n - 1) div 65536] @
       [((n - 1) div 65536 * 65536, if n mod 65536 = 0 then 65536 else n mod 65536)]"
proof (induction "(n - 1) div 65536 - i" arbitrary: i)
  case 0
  then have i: "i = (n - 1) div 65536" by simp
  have lt: "i * 65536 < n" using below_q [OF assms, of i 65536] i by simp
  have nx: "n \<le> i * 65536 + 65536" using last_chunk_end [OF assms, of 65536] i by simp
  have "n - i * 65536 = (if n mod 65536 = 0 then 65536 else n mod 65536)"
    using last_chunk_len [OF assms, of 65536] i by simp
  moreover have "n - i * 65536 \<le> 65536" using nx by simp
  ultimately have m: "min 65536 (n - i * 65536) = (if n mod 65536 = 0 then 65536 else n mod 65536)"
    by (simp only: min_absorb2)
  have e: "chunksFrom (i * 65536 + 65536) n = []"
    using nx by (subst chunksFrom.simps) simp
  have "chunksFrom (i * 65536) n = (i * 65536, min 65536 (n - i * 65536)) # chunksFrom (i * 65536 + 65536) n"
    using lt by (subst chunksFrom.simps) simp
  then show ?case unfolding e m by (simp add: i)
next
  case (Suc d)
  then have i: "i < (n - 1) div 65536" by simp
  have lt: "i * 65536 < n" using below_q [OF assms, of i 65536] i by simp
  have "i * 65536 + 65536 < n" using full_chunk [OF assms i] .
  then have m: "min 65536 (n - i * 65536) = 65536" by simp
  have d: "d = (n - 1) div 65536 - Suc i" using Suc(2) by simp
  have si: "Suc i \<le> (n - 1) div 65536" using i by simp
  have s: "Suc i * 65536 = i * 65536 + 65536" by simp
  have r: "chunksFrom (i * 65536 + 65536) n =
     map (\<lambda>j. (j * 65536, 65536)) [Suc i ..< (n - 1) div 65536] @
       [((n - 1) div 65536 * 65536, if n mod 65536 = 0 then 65536 else n mod 65536)]"
    using Suc(1) [OF d si] unfolding s .
  have u: "[i ..< (n - 1) div 65536] = i # [Suc i ..< (n - 1) div 65536]"
    using i by (simp add: upt_conv_Cons)
  have "chunksFrom (i * 65536) n = (i * 65536, min 65536 (n - i * 65536)) # chunksFrom (i * 65536 + 65536) n"
    using lt by (subst chunksFrom.simps) simp
  then show ?case unfolding r m u by simp
qed

lemma chunksFrom_plan: "chunksFrom 0 n = chunkPlan n"
proof (cases "n = 0")
  case True
  then show ?thesis by (subst chunksFrom.simps) (simp add: chunkPlan_def)
next
  case False
  then have "0 < n" by simp
  from chunksFrom_multiple [OF this, of 0] show ?thesis by (simp add: chunkPlan_def False)
qed

lemma sum_list_take_le: "sum_list (take m (xs :: nat list)) \<le> sum_list xs"
proof (induction xs arbitrary: m)
  case Nil
  then show ?case by simp
next
  case (Cons x xs)
  then show ?case by (cases m) (simp_all add: add_le_mono trans_le_add2)
qed

subsection \<open>The transmission\<close>

lemma sendLoop_all:
  assumes bt: "bufferTransmitter rd = Some bt"
    and nc: "\<forall>i. \<not> cs i"
    and nf: "\<forall>i a b. \<not> transmitFails net i a b"
  shows "N = unat (numBytes rd) \<Longrightarrow> N + 65536 \<le> 2 ^ 64 \<Longrightarrow> off < 2 ^ 64 \<Longrightarrow>
     length (chunksFrom off N) < fuel \<Longrightarrow>
     \<exists>j e. sendLoop fuel net cs rd i (of_nat off)
        = Some (map toTransmit (chunksFrom off N), Exited j e)"
proof (induction off N arbitrary: fuel i rule: chunksFrom.induct)
  case (1 off n)
  from "1.prems"(4) obtain f where fuel: "fuel = Suc f" by (cases fuel) auto
  show ?case
  proof (cases "off < n")
    case False
    then have "\<not> (of_nat off :: size_t) < numBytes rd"
      using "1.prems"(1,3) by (simp add: word_of_nat_less)
    moreover have "chunksFrom off n = []" using False by (subst chunksFrom.simps) simp
    ultimately show ?thesis by (simp add: fuel)
  next
    case True
    then have lt: "(of_nat off :: size_t) < numBytes rd"
      using "1.prems"(1,3) by (simp add: word_of_nat_less)
    have len: "min chunkSize (numBytes rd - of_nat off) = of_nat (min 65536 (n - off))"
      using True "1.prems"(1) by (simp add: word_chunk_len)
    have cf: "chunksFrom off n = (off, min 65536 (n - off)) # chunksFrom (off + 65536) n"
      using True by (subst chunksFrom.simps) simp
    have p3: "off + 65536 < 2 ^ 64" using True "1.prems"(2) by simp
    have p4: "length (chunksFrom (off + 65536) n) < f"
      using "1.prems"(4) by (simp add: cf fuel)
    from "1.IH" [OF True "1.prems"(1,2) p3 p4, of "Suc i"]
    obtain j e where
      rec: "sendLoop f net cs rd (Suc i) (of_nat (off + 65536))
          = Some (map toTransmit (chunksFrom (off + 65536) n), Exited j e)"
      by blast
    have "sendLoop fuel net cs rd i (of_nat off)
        = Some (Transmit (of_nat off) (of_nat (min 65536 (n - off)))
                  # map toTransmit (chunksFrom (off + 65536) n), Exited j e)"
      using lt nc nf bt len rec by (simp add: fuel Let_def word_next_offset)
    then show ?thesis by (simp add: cf toTransmit_def)
  qed
qed

lemma covers_plan: "covers 0 n (chunkPlan n)"
  using covers_chunksFrom [of 0 n] by (simp add: chunksFrom_plan)

text \<open>
  Claim C5.  Take the transmission of a buffer of \<open>numBytes\<close> bytes on which the flag is never
  seen set and no write fails.  The buffer is an array of the program, so its size is not
  within 64 KiB of the top of the range of \<^verbatim>\<open>std::size_t\<close>; then the offset of the loop does
  not wrap around.  The loop ends, and the writes it has issued are, in this order, exactly
  the chunks of the plan that the spec words: offsets 0, 64 KiB, 128 KiB, ..., every chunk
  of 64 KiB except the last, which has \<open>numBytes mod 64 KiB\<close> bytes, or 64 KiB when that is
  zero.  The plan covers the bytes from 0 up to \<open>numBytes\<close>: every chunk is not empty and
  starts where the one before it ends, so the offsets increase strictly and there is no gap
  and no overlap.  For \<open>numBytes = 0\<close> the plan is empty: no write at all.
\<close>

theorem uncancelled_transmission_follows_chunk_plan:
  assumes "bufferTransmitter rd = Some bt"
    and "\<forall>i. \<not> cancelSeen i"
    and "\<forall>i off len. \<not> transmitFails net i off len"
    and "unat (numBytes rd) + 65536 \<le> 2 ^ 64"
  shows "sendWork (Suc (length (chunkPlan (unat (numBytes rd))))) net cancelSeen rd
           = Some (map toTransmit (chunkPlan (unat (numBytes rd))), False) \<and>
         covers 0 (unat (numBytes rd)) (chunkPlan (unat (numBytes rd))) \<and>
         (numBytes rd = 0 \<longrightarrow> chunkPlan (unat (numBytes rd)) = [])"
proof -
  let ?N = "unat (numBytes rd)"
  have "length (chunksFrom 0 ?N) < Suc (length (chunkPlan ?N))"
    by (simp add: chunksFrom_plan)
  from sendLoop_all [OF assms(1-3) refl assms(4) _ this, of 0]
  obtain j e where "sendLoop (Suc (length (chunkPlan ?N))) net cancelSeen rd 0 0
      = Some (map toTransmit (chunkPlan ?N), Exited j e)"
    by (auto simp: chunksFrom_plan)
  then have "sendWork (Suc (length (chunkPlan ?N))) net cancelSeen rd
      = Some (map toTransmit (chunkPlan ?N), False)"
    using assms(2) by (simp add: sendWork_def)
  moreover have "numBytes rd = 0 \<longrightarrow> chunkPlan ?N = []" by (simp add: chunkPlan_def)
  ultimately show ?thesis using covers_plan by blast
qed

lemma isTransmit_toTransmit: "isTransmit (toTransmit c)"
  by (simp add: toTransmit_def)

lemma only_transmits:
  "filter isTransmit (take m (map toTransmit xs)) = take m (map toTransmit xs)"
  by (auto simp: filter_id_conv isTransmit_toTransmit dest!: in_set_takeD)

lemma no_calls: "filter isCall (take m (map toTransmit xs)) = []"
  by (auto simp: filter_empty_conv toTransmit_def dest!: in_set_takeD)

lemma no_deletes: "filter isDeleteData (take m (map toTransmit xs)) = []"
  by (auto simp: filter_empty_conv toTransmit_def dest!: in_set_takeD)

lemma sentBytes_toTransmit: "snd c \<le> 65536 \<Longrightarrow> sentBytes (toTransmit c) = snd c"
  by (simp add: toTransmit_def unat_of_nat_small)

lemma transmitted_chunks:
  "\<forall>c\<in>set xs. snd c \<le> 65536 \<Longrightarrow> transmitted (map toTransmit xs) = sum_list (map snd xs)"
  by (induction xs) (simp_all add: transmitted_def sentBytes_toTransmit)

lemma transmitted_prefix:
  assumes "off \<le> n"
  shows "transmitted (take m (map toTransmit (chunksFrom off n))) \<le> n - off"
proof -
  have b: "\<forall>c\<in>set (take m (chunksFrom off n)). snd c \<le> 65536"
    by (auto dest!: in_set_takeD chunk_sizes_bounded)
  have "transmitted (take m (map toTransmit (chunksFrom off n)))
      = sum_list (map snd (take m (chunksFrom off n)))"
    using transmitted_chunks [OF b] by (simp add: take_map)
  also have "\<dots> = sum_list (take m (map snd (chunksFrom off n)))" by (simp add: take_map)
  also have "\<dots> \<le> sum_list (map snd (chunksFrom off n))" by (rule sum_list_take_le)
  also have "\<dots> = n - off" using assms by (rule sum_chunksFrom)
  finally show ?thesis .
qed

lemma transmitted_append: "transmitted (xs @ ys) = transmitted xs + transmitted ys"
  by (simp add: transmitted_def)

lemma send_phase:
  assumes "bufferTransmitter rd = Some bt"
    and "unat (numBytes rd) + 65536 \<le> 2 ^ 64"
  shows "\<exists>evs m.
           sendWork (Suc (length (chunkPlan (unat (numBytes rd))))) net cancelSeen rd
             = Some (evs, False) \<and>
           filter isTransmit evs = take m (map toTransmit (chunkPlan (unat (numBytes rd)))) \<and>
           (\<forall>k. cancelSeen k \<longrightarrow> length (filter isTransmit evs) \<le> k) \<and>
           transmitted evs \<le> unat (numBytes rd) \<and>
           filter isCall (evs @ afterSend rd) = [] \<and>
           filter isDeleteData (evs @ afterSend rd) = [DeleteData (data rd)] \<and>
           (\<exists>pre. evs @ afterSend rd = pre @ [DeleteData (data rd), DeleteReadData, DeleteSendReq])"
proof -
  let ?N = "unat (numBytes rd)"
  let ?fuel = "Suc (length (chunkPlan ?N))"
  have "length (chunksFrom 0 ?N) < ?fuel" by (simp add: chunksFrom_plan)
  from sendLoop_runs [OF assms(1) refl assms(2) _ this, of net cancelSeen 0]
  obtain evs r m where
    loop: "sendLoop ?fuel net cancelSeen rd 0 0 = Some (evs, r)"
    and r: "r \<noteq> Crashed"
    and evs: "evs = take m (map toTransmit (chunkPlan ?N))"
    and cn: "\<forall>k. cancelSeen k \<longrightarrow> length evs \<le> k"
    by (auto simp: chunksFrom_plan)
  obtain tl where
    work: "sendWork ?fuel net cancelSeen rd = Some (evs @ tl, False)"
    and tl: "tl = [] \<or> (\<exists>l. tl = [Cout l])"
    using loop r by (cases r) (auto simp: sendWork_def)
  have t1: "filter isTransmit tl = []" "filter isCall tl = []" "filter isDeleteData tl = []"
    "transmitted tl = 0"
    using tl by (auto simp: transmitted_def)
  have a: "filter isTransmit (evs @ tl) = take m (map toTransmit (chunkPlan ?N))"
    by (simp add: t1 evs only_transmits)
  have b: "\<forall>k. cancelSeen k \<longrightarrow> length (filter isTransmit (evs @ tl)) \<le> k"
    using cn a evs by simp
  have c: "transmitted (evs @ tl) \<le> ?N"
    using transmitted_prefix [of 0 ?N m] by (simp add: transmitted_append t1 evs chunksFrom_plan)
  have d: "filter isCall ((evs @ tl) @ afterSend rd) = []"
    by (simp add: t1 evs no_calls afterSend_def)
  have e: "filter isDeleteData ((evs @ tl) @ afterSend rd) = [DeleteData (data rd)]"
    by (simp add: t1 evs no_deletes afterSend_def)
  have f: "(evs @ tl) @ afterSend rd = (evs @ tl) @ [DeleteData (data rd), DeleteReadData, DeleteSendReq]"
    by (simp add: afterSend_def)
  show ?thesis using work a b c d e f by blast
qed

text \<open>
  Claim C6.  Take any transmission: a transmitter exists and the buffer is an array of the
  program, as for C5; the flag may be seen set at any look and any write may fail.  The
  flag is looked at once before each write and not during a write: the writes issued are
  the first \<open>m\<close> chunks of the plan, whole and in order, and if the flag is seen set at the
  look number \<open>k\<close> (counted from 0) at most \<open>k\<close> writes are ever issued, none after that look.
  So the bytes handed to the transmitter never exceed \<open>numBytes\<close>.  Whether cut short or
  not, the task ends, and with the step that follows it the trace ends in the deletion of
  the buffer, of the \<^verbatim>\<open>ReadData\<close> and of the request: the buffer is deleted once, and no
  JavaScript function is called in the whole phase.
\<close>

theorem cancellation_checked_between_chunks:
  assumes "bufferTransmitter rd = Some bt"
    and "unat (numBytes rd) + 65536 \<le> 2 ^ 64"
  shows "\<exists>evs m.
           sendWork (Suc (length (chunkPlan (unat (numBytes rd))))) net cancelSeen rd
             = Some (evs, False) \<and>
           filter isTransmit evs = take m (map toTransmit (chunkPlan (unat (numBytes rd)))) \<and>
           (\<forall>k. cancelSeen k \<longrightarrow> length (filter isTransmit evs) \<le> k) \<and>
           transmitted evs \<le> unat (numBytes rd) \<and>
           filter isCall (evs @ afterSend rd) = [] \<and>
           filter isDeleteData (evs @ afterSend rd) = [DeleteData (data rd)] \<and>
           (\<exists>pre. evs @ afterSend rd = pre @ [DeleteData (data rd), DeleteReadData, DeleteSendReq])"
  using assms by (rule send_phase)

subsection \<open>A transmission of 150000 bytes\<close>

lemma sampleReadData_fields:
  "numBytes (sampleReadData n) = n * 8"
  "bufferTransmitter (sampleReadData n) = Some (''h'', 80, Some (n * 8), n * 8)"
  "data (sampleReadData n) = Some (n * 8)"
  "errMsg (sampleReadData n) = []"
  by (simp_all add: sampleReadData_def readWork_def newReadData_def sampleSession_def
      sampleNetwork_def Let_def)

lemma sampleNetwork_fields:
  "transmitFails sampleNetwork k a b = False" "connectTo sampleNetwork h p = Returns ()"
  by (simp_all add: sampleNetwork_def)

lemma plan_150000: "chunkPlan 150000 = [(0, 65536), (65536, 65536), (131072, 18928)]"
proof -
  have "(150000 - 1) div 65536 = (2::nat)" by simp
  moreover have "[0..<2] = [0, Suc 0]" by (simp add: upt_conv_Cons)
  ultimately show ?thesis by (simp add: chunkPlan_def)
qed

lemma fuel4: "Suc (length (chunkPlan 150000)) = Suc (Suc (Suc (Suc 0)))"
  by (simp add: plan_150000)

theorem uncancelled_transmission_follows_chunk_plan_witness:
  "sendWork (Suc (Suc (Suc (Suc 0)))) sampleNetwork (\<lambda>i. False) (sampleReadData 18750)
     = Some ([Transmit 0 65536, Transmit 65536 65536, Transmit 131072 18928], False) \<and>
   covers 0 150000 [(0, 65536), (65536, 65536), (131072, 18928)]"
proof -
  have n: "unat (numBytes (sampleReadData 18750)) = 150000"
    by (simp add: sampleReadData_fields)
  have f: "\<forall>i off len. \<not> transmitFails sampleNetwork i off len"
    by (simp add: sampleNetwork_fields)
  have c: "\<forall>i. \<not> (\<lambda>i. False) i" by simp
  have z: "unat (numBytes (sampleReadData 18750)) + 65536 \<le> 2 ^ 64"
    by (simp add: n)
  from uncancelled_transmission_follows_chunk_plan
         [OF sampleReadData_fields(2) c f z]
  have "sendWork (Suc (Suc (Suc (Suc 0)))) sampleNetwork (\<lambda>i. False) (sampleReadData 18750)
      = Some (map toTransmit [(0, 65536), (65536, 65536), (131072, 18928)], False) \<and>
    covers 0 150000 [(0, 65536), (65536, 65536), (131072, 18928)]"
    unfolding n fuel4 unfolding plan_150000 by blast
  then show ?thesis by (simp add: toTransmit_def)
qed

theorem cancellation_checked_between_chunks_witness:
  "sendWork (Suc (Suc (Suc (Suc 0)))) sampleNetwork cancelledAfterFirstChunk (sampleReadData 18750)
     = Some ([Transmit 0 65536, Cout (CancelledAt 65536 150000)], False) \<and>
   transmitted [Transmit 0 65536, Cout (CancelledAt 65536 150000)] \<le> 150000 \<and>
   filter isDeleteData
     ([Transmit 0 65536, Cout (CancelledAt 65536 150000)] @ afterSend (sampleReadData 18750))
     = [DeleteData (Some 150000)]"
proof -
  have n: "unat (numBytes (sampleReadData 18750)) = 150000"
    by (simp add: sampleReadData_fields)
  have z: "unat (numBytes (sampleReadData 18750)) + 65536 \<le> 2 ^ 64"
    by (simp add: n)
  have w: "sendWork (Suc (Suc (Suc (Suc 0)))) sampleNetwork cancelledAfterFirstChunk (sampleReadData 18750)
     = Some ([Transmit 0 65536, Cout (CancelledAt 65536 150000)], False)"
    by (simp add: sendWork_def sampleReadData_fields cancelledAfterFirstChunk_def
        sampleNetwork_fields chunkSize_def Let_def)
  from cancellation_checked_between_chunks
         [OF sampleReadData_fields(2) z, of sampleNetwork cancelledAfterFirstChunk]
  obtain evs where
    "sendWork (Suc (Suc (Suc (Suc 0)))) sampleNetwork cancelledAfterFirstChunk (sampleReadData 18750) = Some (evs, False)"
    "transmitted evs \<le> 150000"
    "filter isDeleteData (evs @ afterSend (sampleReadData 18750))
       = [DeleteData (data (sampleReadData 18750))]"
    unfolding n fuel4 by blast
  then show ?thesis using w by (simp add: sampleReadData_fields)
qed

subsection \<open>The three tasks of a read\<close>

lemma readWork_transmitter:
  assumes "snd (readLegacy (pdalSession rd) (data rd) (start rd) (count rd)) \<noteq> ThrowsRuntimeError []"
    and "\<forall>h p. connectTo net h p \<noteq> ThrowsRuntimeError []"
    and "errMsg (readWork net rd) = []"
  shows "\<exists>bt. bufferTransmitter (readWork net rd) = Some bt"
proof (cases "readLegacy (pdalSession rd) (data rd) (start rd) (count rd)")
  case (Pair d x)
  show ?thesis
  proof (cases x)
    case (Returns n)
    let ?rd2 = "rd\<lparr> data := d, numPoints := n, numBytes := n * sessionStride (pdalSession rd) \<rparr>"
    show ?thesis
    proof (cases "connectTo net (host ?rd2) (port ?rd2)")
      case (Returns u)
      then show ?thesis using Pair \<open>x = Returns n\<close> by (simp add: readWork_def Let_def)
    next
      case (ThrowsRuntimeError e)
      then have "errMsg (readWork net rd) = e"
        using Pair \<open>x = Returns n\<close> by (simp add: readWork_def Let_def)
      then show ?thesis using assms(2,3) ThrowsRuntimeError by auto
    next
      case ThrowsOther
      then have "errMsg (readWork net rd) = ''Unknown error''"
        using Pair \<open>x = Returns n\<close> by (simp add: readWork_def Let_def)
      then show ?thesis using assms(3) by simp
    qed
  next
    case (ThrowsRuntimeError e)
    then have "errMsg (readWork net rd) = e" using Pair by (simp add: readWork_def)
    then show ?thesis using assms(1,3) Pair ThrowsRuntimeError by simp
  next
    case ThrowsOther
    then have "errMsg (readWork net rd) = ''Unknown error''" using Pair by (simp add: readWork_def)
    then show ?thesis using assms(3) by simp
  qed
qed

lemma errorCallback_filters:
  "filter isDeleteData (errorCallback cb msg) = []" "filter isTransmit (errorCallback cb msg) = []"
  by (simp_all add: errorCallback_def)

lemma readTasks_release:
  assumes "snd (readLegacy (pdalSession rd0) (data rd0) (start rd0) (count rd0)) \<noteq> ThrowsRuntimeError []"
    and "\<forall>h p. connectTo net h p \<noteq> ThrowsRuntimeError []"
    and "unat (numBytes (readWork net rd0)) + 65536 \<le> 2 ^ 64"
  shows "\<exists>evs pre post.
           readTasks (Suc (length (chunkPlan (unat (numBytes (readWork net rd0)))))) net cs rd0
             = Some evs \<and>
           filter isDeleteData evs = [DeleteData (data (readWork net rd0))] \<and>
           evs = pre @ DeleteData (data (readWork net rd0)) # post \<and>
           filter isTransmit post = []"
proof (cases "errMsg (readWork net rd0) = []")
  case False
  let ?rd = "readWork net rd0"
  let ?evs = "errorCallback (callback ?rd) (errMsg ?rd) @ [DeleteData (data ?rd), DeleteReadData]"
  have "readTasks (Suc (length (chunkPlan (unat (numBytes ?rd))))) net cs rd0 = Some ?evs"
    using False by (simp add: readTasks_def afterRead_def Let_def)
  moreover have "filter isDeleteData ?evs = [DeleteData (data ?rd)]"
    by (simp add: errorCallback_filters)
  moreover have "?evs = errorCallback (callback ?rd) (errMsg ?rd) @ DeleteData (data ?rd) # [DeleteReadData]"
    by simp
  moreover have "filter isTransmit [DeleteReadData] = []" by simp
  ultimately show ?thesis by blast
next
  case True
  let ?rd = "readWork net rd0"
  let ?fuel = "Suc (length (chunkPlan (unat (numBytes ?rd))))"
  let ?evs1 = "[Call (callback ?rd) [JNull, IntegerNew (numPoints ?rd), IntegerNew (numBytes ?rd)],
                Dispose (callback ?rd), QueueSend, DeleteReq]"
  from readWork_transmitter [OF assms(1,2) True]
  obtain bt where bt: "bufferTransmitter ?rd = Some bt" by blast
  from send_phase [OF bt assms(3), of net cs]
  obtain evs2 where
    w: "sendWork ?fuel net cs ?rd = Some (evs2, False)"
    and d: "filter isDeleteData (evs2 @ afterSend ?rd) = [DeleteData (data ?rd)]"
    by blast
  have d2: "filter isDeleteData evs2 = []" using d by (simp add: afterSend_def)
  have a: "afterRead ?rd = (?evs1, True)" using True by (simp add: afterRead_def)
  have r: "readTasks ?fuel net cs rd0 = Some (?evs1 @ evs2 @ afterSend ?rd)"
    using a w by (simp add: readTasks_def Let_def)
  moreover have "filter isDeleteData (?evs1 @ evs2 @ afterSend ?rd) = [DeleteData (data ?rd)]"
    using d by simp
  moreover have "?evs1 @ evs2 @ afterSend ?rd
      = (?evs1 @ evs2) @ DeleteData (data ?rd) # [DeleteReadData, DeleteSendReq]"
    by (simp add: afterSend_def)
  moreover have "filter isTransmit [DeleteReadData, DeleteSendReq] = []" by simp
  ultimately show ?thesis by blast
qed

subsection \<open>A retrieval that fails\<close>

text \<open>
  Claim C7 says that every failure of the retrieval is reported through the callback as its
  only argument, with the buffer released and no transmission started.  The task stores
  the message of the exception, and what runs after it takes a stored message of length
  zero for success.  So when the session's read throws a \<^verbatim>\<open>std::runtime_error\<close> whose message
  is empty, the callback is called with the three arguments of a success (null and the two
  counts, still as they were before the read) and the transmission is queued.
\<close>

theorem empty_message_failure_taken_for_success:
  assumes "readLegacy (pdalSession rd) (data rd) (start rd) (count rd) = (d, ThrowsRuntimeError [])"
  shows "afterRead (readWork net rd)
       = ([Call (callback rd) [JNull, IntegerNew (numPoints rd), IntegerNew (numBytes rd)],
           Dispose (callback rd), QueueSend, DeleteReq], True)"
  using assms by (simp add: readWork_def afterRead_def)

text \<open>A failure with a message, and any exception that is no \<^verbatim>\<open>std::runtime_error\<close>, is
  reported as the claim says, for any fuel.\<close>

lemma retrieval_failure_reported:
  assumes "readLegacy (pdalSession rd) (data rd) (start rd) (count rd) = (d, x)"
    and "x = ThrowsRuntimeError e \<and> e \<noteq> [] \<or> x = ThrowsOther \<and> e = ''Unknown error''"
  shows "readTasks fuel net cs rd
       = Some [Call (callback rd) [JString e], Dispose (callback rd), DeleteData d, DeleteReadData]"
  using assms by (auto simp: readTasks_def readWork_def afterRead_def errorCallback_def)

subsection \<open>The life of the buffer\<close>

text \<open>
  Claim C2, amended.  The buffer of a command is not allocated by the retrieval: every
  command the factory returns has its buffer allocated by the constructor, of the stride
  times the number of points of the whole data set, while no point has been read and no
  transmitter exists.  In the tasks of \<^verbatim>\<open>PdalBindings::read\<close>, where the session's read
  allocates the buffer, the buffer is deleted exactly once, and after the last write,
  whatever the retrieval returns or throws, whatever the flag is seen to be and whichever
  write fails: after a complete transmission, after one cut short, and after a failed
  retrieval.  This is for exceptions with a message (the case of the empty message is left
  out here) and a buffer size not within 64 KiB of the top of the range of \<^verbatim>\<open>std::size_t\<close>.
\<close>

theorem buffer_allocated_by_constructor_released_once:
  "(create mem args s = Returns (evs0, Some c) \<longrightarrow>
      m_data c = Some (m_stride c * getNumPoints s) \<and>
      m_numPoints c = 0 \<and> m_bufferTransmitter c = None) \<and>
   (snd (readLegacy (pdalSession rd0) (data rd0) (start rd0) (count rd0)) \<noteq> ThrowsRuntimeError [] \<and>
    (\<forall>h p. connectTo net h p \<noteq> ThrowsRuntimeError []) \<and>
    unat (numBytes (readWork net rd0)) + 65536 \<le> 2 ^ 64 \<longrightarrow>
      (\<exists>evs pre post.
         readTasks (Suc (length (chunkPlan (unat (numBytes (readWork net rd0)))))) net cancelSeen rd0
           = Some evs \<and>
         filter isDeleteData evs = [DeleteData (data (readWork net rd0))] \<and>
         evs = pre @ DeleteData (data (readWork net rd0)) # post \<and>
         filter isTransmit post = []))"
proof (rule conjI)
  show "create mem args s = Returns (evs0, Some c) \<longrightarrow>
      m_data c = Some (m_stride c * getNumPoints s) \<and>
      m_numPoints c = 0 \<and> m_bufferTransmitter c = None"
  proof
    assume "create mem args s = Returns (evs0, Some c)"
    from create_fresh [OF this]
    show "m_data c = Some (m_stride c * getNumPoints s) \<and>
        m_numPoints c = 0 \<and> m_bufferTransmitter c = None"
      by (simp add: fresh_def)
  qed
next
  show "snd (readLegacy (pdalSession rd0) (data rd0) (start rd0) (count rd0)) \<noteq> ThrowsRuntimeError [] \<and>
    (\<forall>h p. connectTo net h p \<noteq> ThrowsRuntimeError []) \<and>
    unat (numBytes (readWork net rd0)) + 65536 \<le> 2 ^ 64 \<longrightarrow>
      (\<exists>evs pre post.
         readTasks (Suc (length (chunkPlan (unat (numBytes (readWork net rd0)))))) net cancelSeen rd0
           = Some evs \<and>
         filter isDeleteData evs = [DeleteData (data (readWork net rd0))] \<and>
         evs = pre @ DeleteData (data (readWork net rd0)) # post \<and>
         filter isTransmit post = [])"
    using readTasks_release [of rd0 net cancelSeen] by blast
qed

subsection \<open>cancel\<close>

lemma lookup_update: "p < length hp \<Longrightarrow> lookup (hp[p := v]) p = v"
  by (simp add: lookup_def)

text \<open>
  Claim C3, amended.  While \<open>m_readData\<close> is null, that is before the first read accepted
  on the object, \<^verbatim>\<open>cancel\<close> changes nothing and answers false.  When \<open>m_readData\<close> points to
  a \<^verbatim>\<open>ReadData\<close> that has not been deleted, \<^verbatim>\<open>cancel\<close> sets the flag of that \<^verbatim>\<open>ReadData\<close> and
  answers true; it does not reset the pointer, so two calls in sequence answer true and
  true.  The claim says nothing of a \<^verbatim>\<open>ReadData\<close> that has been deleted, which is the state
  after a read has completed or failed.
\<close>

theorem cancel_false_before_read_true_on_live_read:
  "(m_readData (fst w) = None \<longrightarrow> PdalBindings_cancel w = Done ([], False, w)) \<and>
   (\<forall>p rd. m_readData (fst w) = Some p \<and> lookup (snd w) p = Some rd \<longrightarrow>
      PdalBindings_cancel w
        = Done ([Cout Cancelling], True, (fst w, (snd w)[p := Some (rd\<lparr> cancel := True \<rparr>)])) \<and>
      twoCancels w = Some (True, True))"
proof (intro conjI allI impI)
  assume "m_readData (fst w) = None"
  then show "PdalBindings_cancel w = Done ([], False, w)" by (simp add: PdalBindings_cancel_def)
next
  fix p rd
  assume a: "m_readData (fst w) = Some p \<and> lookup (snd w) p = Some rd"
  then show 1: "PdalBindings_cancel w
        = Done ([Cout Cancelling], True, (fst w, (snd w)[p := Some (rd\<lparr> cancel := True \<rparr>)]))"
    by (simp add: PdalBindings_cancel_def)
  have "p < length (snd w)" using a by (auto simp: lookup_def split: if_splits)
  then have "lookup ((snd w)[p := Some (rd\<lparr> cancel := True \<rparr>)]) p = Some (rd\<lparr> cancel := True \<rparr>)"
    by (rule lookup_update)
  then have "\<exists>w2. PdalBindings_cancel (fst w, (snd w)[p := Some (rd\<lparr> cancel := True \<rparr>)])
      = Done ([Cout Cancelling], True, w2)"
    using a by (simp add: PdalBindings_cancel_def)
  then show "twoCancels w = Some (True, True)"
    using 1 by (auto simp: twoCancels_def)
qed

subsection \<open>Concrete runs of the tasks and of cancel\<close>

lemma IntegerNew_small: "IntegerNew 0 = JNumber (Fin 0)" "IntegerNew 18750 = JNumber (Fin 18750)"
  "IntegerNew 150000 = JNumber (Fin 150000)"
  by (simp_all add: IntegerNew_def)

theorem empty_message_failure_taken_for_success_witness:
  "readTasks (Suc 0) sampleNetwork (\<lambda>i. False)
     (newReadData silentFailureSession ''h'' 80 0 3 (JFunction 0))
   = Some [Call (JFunction 0) [JNull, JNumber (Fin 0), JNumber (Fin 0)], Dispose (JFunction 0),
           QueueSend, DeleteReq, DeleteData None, DeleteReadData, DeleteSendReq]"
proof -
  let ?rd = "newReadData silentFailureSession ''h'' 80 0 3 (JFunction 0)"
  have r: "readLegacy (pdalSession ?rd) (data ?rd) (start ?rd) (count ?rd)
      = (None, ThrowsRuntimeError [])"
    by (simp add: newReadData_def silentFailureSession_def)
  have w: "readWork sampleNetwork ?rd = ?rd"
    using r by (simp add: readWork_def newReadData_def)
  have s: "sendWork (Suc 0) sampleNetwork (\<lambda>i. False) ?rd = Some ([], False)"
    by (simp add: sendWork_def newReadData_def)
  from empty_message_failure_taken_for_success [OF r, of sampleNetwork]
  have "afterRead (readWork sampleNetwork ?rd)
      = ([Call (JFunction 0) [JNull, JNumber (Fin 0), JNumber (Fin 0)], Dispose (JFunction 0),
          QueueSend, DeleteReq], True)"
    by (simp add: newReadData_def IntegerNew_small)
  then show ?thesis
    unfolding readTasks_def Let_def by (simp add: w s) (simp add: afterSend_def newReadData_def)
qed

text \<open>
  Against C2 as stated: the command the factory returns for a spatial read on the sample
  session, before any \<^verbatim>\<open>run\<close>, already has a buffer, of 40 bytes (the stride 8 times the 5
  points of the data set), while the read it then runs returns one point, 8 bytes.
\<close>

theorem buffer_allocated_before_retrieval:
  "create sampleMemory (bboxArgs [JNumber (Fin 0), JNumber (Fin 0), JNumber (Fin 5), JNumber (Fin 5)]) sampleSession
     = Returns ([], Some (commandWith sampleSession ''h'' 80 [] (JFunction 0)
         (ReadCommandQuadIndex (Some (Fin 0, Fin 0, Fin 5, Fin 5)) 0 1))) \<and>
   m_data (commandWith sampleSession ''h'' 80 [] (JFunction 0)
         (ReadCommandQuadIndex (Some (Fin 0, Fin 0, Fin 5, Fin 5)) 0 1)) = Some 40 \<and>
   m_numPoints (commandWith sampleSession ''h'' 80 [] (JFunction 0)
         (ReadCommandQuadIndex (Some (Fin 0, Fin 0, Fin 5, Fin 5)) 0 1)) = 0 \<and>
   m_numBytes (snd (run sampleNetwork (commandWith sampleSession ''h'' 80 [] (JFunction 0)
         (ReadCommandQuadIndex (Some (Fin 0, Fin 0, Fin 5, Fin 5)) 0 1)))) = 8"
proof -
  let ?c = "commandWith sampleSession ''h'' 80 [] (JFunction 0)
         (ReadCommandQuadIndex (Some (Fin 0, Fin 0, Fin 5, Fin 5)) 0 1)"
  have 1: "create sampleMemory
      (bboxArgs [JNumber (Fin 0), JNumber (Fin 0), JNumber (Fin 5), JNumber (Fin 5)])
      sampleSession = Returns ([], Some ?c)"
    by (simp add: create_bboxArgs createQuadIndex_array [OF bboxArgs_shape(4)] bboxArgs_shape
        num_ge_def built_new sampleSession_sizes sampleMemory_small)
  have 2: "m_data ?c = Some 40" "m_numPoints ?c = 0" "m_stride ?c = 8"
    by (simp_all add: commandWith_def schemaOrDefault_def getStride_def sampleSession_def Let_def)
  have q: "readQuery (m_query ?c) ?c = (Some 40, Returns 1)"
    by (simp add: commandWith_def schemaOrDefault_def getStride_def sampleSession_def Let_def)
  have 3: "m_numBytes (snd (run sampleNetwork ?c)) = 8"
    using run_sets_counts [OF q, of sampleNetwork] 2 by simp
  show ?thesis using 1 2 3 by simp
qed

theorem buffer_allocated_by_constructor_released_once_witness:
  "m_data (commandWith sampleSession ''h'' 80
         [\<lparr> dim_name = ''X'', dim_type = ''floating'', dim_size = 4 \<rparr>] (JFunction 0)
         (ReadCommandUnindexed 0 1)) = Some 20 \<and>
   (\<exists>evs. readTasks (Suc (Suc (Suc (Suc 0)))) sampleNetwork cancelledAfterFirstChunk
            (newReadData sampleSession ''h'' 80 0 18750 (JFunction 0)) = Some evs \<and>
          filter isDeleteData evs = [DeleteData (Some 150000)])"
proof -
  let ?rd0 = "newReadData sampleSession ''h'' 80 0 18750 (JFunction 0)"
  let ?c = "commandWith sampleSession ''h'' 80
         [\<lparr> dim_name = ''X'', dim_type = ''floating'', dim_size = 4 \<rparr>] (JFunction 0)
         (ReadCommandUnindexed 0 1)"
  note t = buffer_allocated_by_constructor_released_once
             [of sampleMemory "rangeArgs 0 1" sampleSession "[]" ?c ?rd0 sampleNetwork cancelledAfterFirstChunk]
  have h1: "snd (readLegacy (pdalSession ?rd0) (data ?rd0) (start ?rd0) (count ?rd0))
      \<noteq> ThrowsRuntimeError []"
    by (simp add: newReadData_def sampleSession_def)
  have h2: "\<forall>h p. connectTo sampleNetwork h p \<noteq> ThrowsRuntimeError []"
    by (simp add: sampleNetwork_fields)
  have rw: "readWork sampleNetwork ?rd0 = sampleReadData 18750"
    by (simp add: sampleReadData_def)
  have n: "unat (numBytes (readWork sampleNetwork ?rd0)) = 150000"
    by (simp add: rw sampleReadData_fields)
  have h3: "unat (numBytes (readWork sampleNetwork ?rd0)) + 65536 \<le> 2 ^ 64"
    by (simp add: n)
  have s: "m_stride ?c * getNumPoints sampleSession = 20"
    by (simp add: commandWith_def schemaOrDefault_def getStride_def sampleSession_def Let_def)
  have d: "data (readWork sampleNetwork ?rd0) = Some 150000"
    by (simp add: rw sampleReadData_fields)
  from t create_range_0_1 have a: "m_data ?c = Some 20" unfolding s by blast
  from t h1 h2 h3
  have "\<exists>evs pre post.
         readTasks (Suc (length (chunkPlan (unat (numBytes (readWork sampleNetwork ?rd0))))))
           sampleNetwork cancelledAfterFirstChunk ?rd0 = Some evs \<and>
         filter isDeleteData evs = [DeleteData (data (readWork sampleNetwork ?rd0))] \<and>
         evs = pre @ DeleteData (data (readWork sampleNetwork ?rd0)) # post \<and>
         filter isTransmit post = []"
    by blast
  then have b: "\<exists>evs. readTasks (Suc (Suc (Suc (Suc 0)))) sampleNetwork cancelledAfterFirstChunk ?rd0
        = Some evs \<and> filter isDeleteData evs = [DeleteData (Some 150000)]"
    unfolding n fuel4 d by blast
  show ?thesis using a b by blast
qed

text \<open>
  Against C3 as stated: after a read has been accepted on a new object, two calls of
  \<^verbatim>\<open>cancel\<close> in sequence answer true and true, not true and false; and once the \<^verbatim>\<open>ReadData\<close>
  has been deleted, \<^verbatim>\<open>cancel\<close> writes to the deleted structure instead of answering false.
\<close>

lemma read_accepted:
  "PdalBindings_read sampleReadArgs (sampleBindings, [])
     = Done ([QueueRead],
             (sampleBindings\<lparr> m_readData := Some 0 \<rparr>,
              [Some (newReadData sampleSession ''h'' 80 0 3 (JFunction 0))]),
             Some 0)"
proof -
  have a: "arg sampleReadArgs 0 = JString ''h''" "arg sampleReadArgs 1 = JNumber (Fin 80)"
    "arg sampleReadArgs 2 = JNumber (Fin 0)" "arg sampleReadArgs 3 = JNumber (Fin 3)"
    "arg sampleReadArgs 4 = JFunction 0" "arg sampleReadArgs (Suc 0) = JNumber (Fin 80)"
    by (simp_all add: sampleReadArgs_def arg_def)
  have e: "readErrMsg sampleReadArgs = Returns []" by (simp add: readErrMsg_def a)
  show ?thesis
    by (simp add: PdalBindings_read_def e a Let_def sampleBindings_def sampleSession_def)
qed

theorem second_cancel_answers_true:
  "PdalBindings_read sampleReadArgs (sampleBindings, [])
     = Done ([QueueRead],
             (sampleBindings\<lparr> m_readData := Some 0 \<rparr>,
              [Some (newReadData sampleSession ''h'' 80 0 3 (JFunction 0))]),
             Some 0) \<and>
   twoCancels (sampleBindings\<lparr> m_readData := Some 0 \<rparr>,
               [Some (newReadData sampleSession ''h'' 80 0 3 (JFunction 0))])
     = Some (True, True) \<and>
   PdalBindings_cancel
     (deleteReadData 0 (sampleBindings\<lparr> m_readData := Some 0 \<rparr>,
               [Some (newReadData sampleSession ''h'' 80 0 3 (JFunction 0))]))
     = UseAfterFree"
proof -
  have "twoCancels (sampleBindings\<lparr> m_readData := Some 0 \<rparr>,
               [Some (newReadData sampleSession ''h'' 80 0 3 (JFunction 0))])
     = Some (True, True)"
    by (simp add: twoCancels_def PdalBindings_cancel_def lookup_def)
  moreover have "PdalBindings_cancel
     (deleteReadData 0 (sampleBindings\<lparr> m_readData := Some 0 \<rparr>,
               [Some (newReadData sampleSession ''h'' 80 0 3 (JFunction 0))]))
     = UseAfterFree"
    by (simp add: PdalBindings_cancel_def deleteReadData_def lookup_def)
  ultimately show ?thesis using read_accepted by blast
qed

theorem cancel_false_before_read_true_on_live_read_witness:
  "PdalBindings_cancel (sampleBindings, []) = Done ([], False, (sampleBindings, [])) \<and>
   PdalBindings_cancel (sampleBindings\<lparr> m_readData := Some 0 \<rparr>,
               [Some (newReadData sampleSession ''h'' 80 0 7 (JFunction 0))])
     = Done ([Cout Cancelling], True,
             (sampleBindings\<lparr> m_readData := Some 0 \<rparr>,
              [Some ((newReadData sampleSession ''h'' 80 0 7 (JFunction 0))\<lparr> cancel := True \<rparr>)]))"
proof -
  let ?rd = "newReadData sampleSession ''h'' 80 0 7 (JFunction 0)"
  have n: "m_readData (fst (sampleBindings, [])) = None" by (simp add: sampleBindings_def)
  have p: "m_readData (fst (sampleBindings\<lparr> m_readData := Some 0 \<rparr>, [Some ?rd])) = Some 0 \<and>
      lookup (snd (sampleBindings\<lparr> m_readData := Some 0 \<rparr>, [Some ?rd])) 0 = Some ?rd"
    by (simp add: lookup_def)
  from cancel_false_before_read_true_on_live_read [of "(sampleBindings, [])"] n
  have 1: "PdalBindings_cancel (sampleBindings, []) = Done ([], False, (sampleBindings, []))"
    by blast
  from cancel_false_before_read_true_on_live_read
         [of "(sampleBindings\<lparr> m_readData := Some 0 \<rparr>, [Some ?rd])"] p
  have 2: "PdalBindings_cancel (sampleBindings\<lparr> m_readData := Some 0 \<rparr>, [Some ?rd])
      = Done ([Cout Cancelling], True,
          (fst (sampleBindings\<lparr> m_readData := Some 0 \<rparr>, [Some ?rd]),
           (snd (sampleBindings\<lparr> m_readData := Some 0 \<rparr>, [Some ?rd]))
              [0 := Some (?rd\<lparr> cancel := True \<rparr>)]))"
    by blast
  show ?thesis using 1 2 by simp
qed

end
